theory Spec2Isabelle
  imports Complex_Main "HOL-Library.Word" "HOL-Library.Char_ord" "HOL-Library.List_Lexorder"
begin

section \<open>Python values and exceptions\<close>

text \<open>
  The reader module \<^verbatim>\<open>pysar/_readfile.py\<close> is Python 2 code over the file system,
  numpy, h5py and PIL. Every exception the code can raise is a value of \<open>error\<close>;
  a function that can raise returns \<open>error + 'a\<close>, with \<open>Inl\<close> for the exception.
  \<open>SystemExit\<close> is \<^verbatim>\<open>sys.exit(1)\<close>.
\<close>

datatype error =
    SystemExit | KeyError | IndexError | ValueError | TypeError | NameError
  | AttributeError | IOError | StopIteration

definition bind :: "error + 'a \<Rightarrow> ('a \<Rightarrow> error + 'b) \<Rightarrow> error + 'b" where
  "bind m f = (case m of Inl e \<Rightarrow> Inl e | Inr x \<Rightarrow> f x)"

text \<open>An attribute dictionary: string keys, string values.\<close>

type_synonym atr = "string \<rightharpoonup> string"

definition getitem :: "atr \<Rightarrow> string \<Rightarrow> error + string" where
  \<comment> \<open>\<^verbatim>\<open>d[key]\<close>: KeyError when the key is absent\<close>
  "getitem d k = (case d k of None \<Rightarrow> Inl KeyError | Some v \<Rightarrow> Inr v)"

section \<open>String operations of the sidecar parsers\<close>

definition isspace :: "char \<Rightarrow> bool" where
  \<comment> \<open>the whitespace of \<^verbatim>\<open>str.split()\<close> and \<^verbatim>\<open>str.strip()\<close>:
      space, tab, newline, vertical tab, form feed, carriage return\<close>
  "isspace c = (c = CHR '' '' \<or> c = CHR 0x09 \<or> c = CHR 0x0A \<or> c = CHR 0x0B
     \<or> c = CHR 0x0C \<or> c = CHR 0x0D)"

fun split_acc :: "string \<Rightarrow> string \<Rightarrow> string list" where
  "split_acc tok [] = (if tok = [] then [] else [tok])"
| "split_acc tok (c # cs) =
     (if isspace c then (if tok = [] then split_acc [] cs else tok # split_acc [] cs)
      else split_acc (tok @ [c]) cs)"

definition split :: "string \<Rightarrow> string list" where
  \<comment> \<open>\<^verbatim>\<open>line.split()\<close>: the maximal runs of non-whitespace characters\<close>
  "split line = split_acc [] line"

definition strip :: "string \<Rightarrow> string" where
  \<comment> \<open>\<^verbatim>\<open>s.strip()\<close>: whitespace removed at both ends\<close>
  "strip s = rev (dropWhile isspace (rev (dropWhile isspace s)))"

definition startswith :: "string \<Rightarrow> char \<Rightarrow> bool" where
  "startswith s c = (case s of [] \<Rightarrow> False | d # _ \<Rightarrow> d = c)"

definition before_hash :: "string \<Rightarrow> string" where
  \<comment> \<open>\<^verbatim>\<open>s.split("#")[0]\<close>: the text before the first \<^verbatim>\<open>#\<close>\<close>
  "before_hash s = takeWhile (\<lambda>c. c \<noteq> CHR ''#'') s"

definition drop_newlines :: "string \<Rightarrow> string" where
  \<comment> \<open>\<^verbatim>\<open>str.replace(s,'\n','')\<close>\<close>
  "drop_newlines s = filter (\<lambda>c. c \<noteq> CHR 0x0A) s"

fun readlines :: "string \<Rightarrow> string list" where
  \<comment> \<open>iterating over an open text file: the lines, each with its newline\<close>
  "readlines [] = []"
| "readlines (c # cs) =
     (if c = CHR 0x0A then [c] # readlines cs
      else (case readlines cs of [] \<Rightarrow> [[c]] | l # ls \<Rightarrow> (c # l) # ls))"

section \<open>The positional-parameter sidecar parser: \<^verbatim>\<open>read_gamma_par\<close>\<close>

definition par_line :: "atr \<Rightarrow> string \<Rightarrow> atr" where
  \<comment> \<open>the body of the \<^verbatim>\<open>for line in f\<close> loop\<close>
  "par_line par_dict line =
     (let l = split line in
      if length l < 2 \<or> startswith line CHR ''%'' \<or> startswith line CHR ''#'' then par_dict
      else par_dict(strip (l ! 0) \<mapsto> strip (before_hash (drop_newlines (l ! 1)))))"

definition read_gamma_par_text :: "string \<Rightarrow> error + atr" where
  \<comment> \<open>\<^verbatim>\<open>read_gamma_par\<close> on the content of the opened file\<close>
  "read_gamma_par_text content =
     (case readlines content of
        l1 # l2 # rest \<Rightarrow>
          (let par_dict = foldl par_line Map.empty rest in
           bind (getitem par_dict ''range_samples:'') (\<lambda>w.
           bind (getitem (par_dict(''WIDTH'' \<mapsto> w)) ''azimuth_lines:'') (\<lambda>l.
           Inr (par_dict(''WIDTH'' \<mapsto> w, ''FILE_LENGTH'' \<mapsto> l)))))
      | _ \<Rightarrow> Inl StopIteration)"


section \<open>Paths\<close>

definition rfind :: "string \<Rightarrow> char \<Rightarrow> int" where
  \<comment> \<open>\<^verbatim>\<open>p.rfind(c)\<close>: the last index of \<open>c\<close>, or \<open>-1\<close>\<close>
  "rfind p c =
     (if c \<in> set p then int (length p) - 1 - int (length (takeWhile (\<lambda>d. d \<noteq> c) (rev p)))
      else - 1)"

definition splitext :: "string \<Rightarrow> string \<times> string" where
  \<comment> \<open>\<^verbatim>\<open>os.path.splitext\<close>: the extension starts at the last dot of the last path
      component, unless only dots stand before it in that component\<close>
  "splitext p =
     (let sepIndex = rfind p CHR ''/''; dotIndex = rfind p CHR ''.'' in
      if dotIndex > sepIndex \<and>
         \<not> list_all (\<lambda>c. c = CHR ''.'')
             (take (nat dotIndex - nat (sepIndex + 1)) (drop (nat (sepIndex + 1)) p))
      then (take (nat dotIndex) p, drop (nat dotIndex) p)
      else (p, []))"

definition lower_char :: "char \<Rightarrow> char" where
  "lower_char c =
     (case map_of (zip ''ABCDEFGHIJKLMNOPQRSTUVWXYZ'' ''abcdefghijklmnopqrstuvwxyz'') c of
        Some d \<Rightarrow> d | None \<Rightarrow> c)"

definition lower :: "string \<Rightarrow> string" where
  "lower s = map lower_char s"

definition file_ext :: "string \<Rightarrow> string" where
  \<comment> \<open>\<^verbatim>\<open>os.path.splitext(File)[1].lower()\<close>\<close>
  "file_ext File = lower (snd (splitext File))"

section \<open>Pixels, containers and the file system\<close>

text \<open>
  A float32 sample is a value of the type parameter \<open>'f\<close>: the bits of the file, on which
  the model does no arithmetic of its own. A complex64 sample is a pair of them (real,
  imaginary), an int16 sample is a 16-bit word. A 2-D array is the list of its rows.
\<close>

datatype 'f pixel =
    Float32 'f
  | Int16 "16 word"
  | Complex64 'f 'f
  | Complex128 int int

type_synonym 'a matrix = "'a list list"

text \<open>
  A node of an HDF5 container, as h5py shows it: a dataset or a group, each with its
  attribute set (values already passed through \<^verbatim>\<open>str\<close>), a group with its members in
  the order of \<^verbatim>\<open>keys()\<close>. A name given to \<^verbatim>\<open>node[name]\<close> or
  \<^verbatim>\<open>node.get(name)\<close> is an HDF5 path: its components are separated by
  \<^verbatim>\<open>/\<close>, a path that begins with \<^verbatim>\<open>/\<close> starts at the root group of the file and
  any other at the node, and an empty component or \<^verbatim>\<open>.\<close> stays where it is.
\<close>

datatype 'd h5node =
    H5Dataset "string \<rightharpoonup> string" "'d matrix"
  | H5Group "string \<rightharpoonup> string" "(string \<times> 'd h5node) list"

fun h5_attrs :: "'d h5node \<Rightarrow> atr" where
  "h5_attrs (H5Dataset a _) = a"
| "h5_attrs (H5Group a _) = a"

fun h5_keys :: "'d h5node \<Rightarrow> error + string list" where
  \<comment> \<open>\<^verbatim>\<open>node.keys()\<close>: a dataset has no such method\<close>
  "h5_keys (H5Group _ ms) = Inr (map fst ms)"
| "h5_keys (H5Dataset _ _) = Inl AttributeError"

fun path_acc :: "string \<Rightarrow> string \<Rightarrow> string list" where
  \<comment> \<open>the pieces of a path between its \<^verbatim>\<open>/\<close> characters\<close>
  "path_acc seg [] = [seg]"
| "path_acc seg (c # cs) =
     (if c = CHR ''/'' then seg # path_acc [] cs else path_acc (seg @ [c]) cs)"

definition h5_components :: "string \<Rightarrow> string list" where
  \<comment> \<open>the components of an HDF5 path that name a link\<close>
  "h5_components name = filter (\<lambda>c. c \<noteq> [] \<and> c \<noteq> ''.'') (path_acc [] name)"

fun h5_walk :: "'d h5node \<Rightarrow> string list \<Rightarrow> 'd h5node option" where
  \<comment> \<open>following the components from a node: only a group has members\<close>
  "h5_walk n [] = Some n"
| "h5_walk (H5Dataset _ _) (c # cs) = None"
| "h5_walk (H5Group _ ms) (c # cs) =
     (case map_of ms c of None \<Rightarrow> None | Some m \<Rightarrow> h5_walk m cs)"

definition h5_resolve ::
  "(string \<times> 'd h5node) list \<Rightarrow> 'd h5node \<Rightarrow> string \<Rightarrow> 'd h5node option" where
  \<comment> \<open>the object an HDF5 path names, seen from a node of the file whose root group has
      the members \<open>top_members\<close>; the empty path names nothing\<close>
  "h5_resolve top_members loc name =
     (if name = [] then None
      else h5_walk (if hd name = CHR ''/'' then H5Group Map.empty top_members else loc)
             (h5_components name))"

definition members_getitem :: "(string \<times> 'd h5node) list \<Rightarrow> string \<Rightarrow> error + 'd h5node" where
  \<comment> \<open>\<^verbatim>\<open>h5file[name]\<close> on the opened file, which is its root group\<close>
  "members_getitem top_members name =
     (case h5_resolve top_members (H5Group Map.empty top_members) name of
        None \<Rightarrow> Inl KeyError | Some n \<Rightarrow> Inr n)"

fun h5_getitem ::
  "(string \<times> 'd h5node) list \<Rightarrow> 'd h5node \<Rightarrow> string \<Rightarrow> error + 'd h5node" where
  \<comment> \<open>\<^verbatim>\<open>node[name]\<close> in the file whose root group has the members \<open>top_members\<close>: KeyError for a path
      that names nothing; a dataset indexed by a name has no such field\<close>
  "h5_getitem top_members (H5Group a ms) name =
     (case h5_resolve top_members (H5Group a ms) name of None \<Rightarrow> Inl KeyError | Some n \<Rightarrow> Inr n)"
| "h5_getitem top_members (H5Dataset _ _) name = Inl ValueError"

fun h5_get ::
  "(string \<times> 'd h5node) list \<Rightarrow> 'd h5node \<Rightarrow> string \<Rightarrow> error + 'd h5node option" where
  \<comment> \<open>\<^verbatim>\<open>node.get(name)\<close>: \<open>None\<close> for a path that names nothing; a dataset has
      no such method\<close>
  "h5_get top_members (H5Group a ms) name = Inr (h5_resolve top_members (H5Group a ms) name)"
| "h5_get top_members (H5Dataset _ _) name = Inl AttributeError"

text \<open>
  The file system, as the reader sees it through its libraries. A binary file is given
  by the items \<^verbatim>\<open>np.fromfile\<close> finds in it, one list for each element type the code
  reads; \<open>rsc\<close> is \<^verbatim>\<open>dict(np.loadtxt(path, dtype=str))\<close>, \<open>xml\<close> the name and value
  of every \<^verbatim>\<open>property\<close> element of the parsed document in document order, \<open>h5\<close> the
  members of the root group of the opened container, \<open>image\<close> is \<^verbatim>\<open>Image.open\<close>;
  each is the exception the library raises where it does.
\<close>

record ('f, 'img) fsys =
  isfile :: "string \<Rightarrow> bool"
  text_of :: "string \<rightharpoonup> string"
  rsc :: "string \<Rightarrow> error + atr"
  xml :: "string \<Rightarrow> error + (string \<times> string) list"
  h5 :: "string \<Rightarrow> error + (string \<times> 'f pixel h5node) list"
  float32s :: "string \<Rightarrow> 'f list"
  complex64s :: "string \<Rightarrow> ('f \<times> 'f) list"
  int16s :: "string \<Rightarrow> 16 word list"
  image :: "string \<Rightarrow> error + 'img"

section \<open>Attribute parsers and \<^verbatim>\<open>read_attributes\<close>\<close>

definition read_roipac_rsc :: "('f, 'img) fsys \<Rightarrow> string \<Rightarrow> error + atr" where
  "read_roipac_rsc fs File = rsc fs File"

definition read_gamma_par :: "('f, 'img) fsys \<Rightarrow> string \<Rightarrow> error + atr" where
  "read_gamma_par fs File =
     (case text_of fs File of None \<Rightarrow> Inl IOError | Some content \<Rightarrow> read_gamma_par_text content)"

definition read_isce_xml :: "('f, 'img) fsys \<Rightarrow> string \<Rightarrow> error + atr" where
  "read_isce_xml fs File =
     bind (xml fs File) (\<lambda>props.
       let xmldict = foldl (\<lambda>d (attrib, val). d(attrib \<mapsto> val)) Map.empty props in
       bind (getitem xmldict ''width'') (\<lambda>w.
       bind (getitem (xmldict(''WIDTH'' \<mapsto> w)) ''length'') (\<lambda>l.
       Inr (xmldict(''WIDTH'' \<mapsto> w, ''FILE_LENGTH'' \<mapsto> l)))))"

definition first_key :: "string list \<Rightarrow> string list" where
  \<comment> \<open>the \<^verbatim>\<open>if/elif\<close> chain that overwrites \<^verbatim>\<open>k[0]\<close>\<close>
  "first_key k =
     (if ''interferograms'' \<in> set k then k[0 := ''interferograms'']
      else if ''coherence'' \<in> set k then k[0 := ''coherence'']
      else if ''timeseries'' \<in> set k then k[0 := ''timeseries'']
      else k)"

definition h5_attrs_of :: "(string \<times> 'd h5node) list \<Rightarrow> string \<Rightarrow> error + atr" where
  \<comment> \<open>the choice of \<^verbatim>\<open>attrs\<close>: of the first member of a group of epochs, or of the
      group itself; with neither branch taken \<^verbatim>\<open>attrs\<close> is unbound\<close>
  "h5_attrs_of h5f k0 =
     (if k0 \<in> set [''interferograms'', ''coherence'', ''wrapped''] then
        bind (members_getitem h5f k0) (\<lambda>g.
        bind (h5_keys g) (\<lambda>ks.
          case ks of [] \<Rightarrow> Inl IndexError
          | e # _ \<Rightarrow> bind (h5_getitem h5f g e) (\<lambda>n. Inr (h5_attrs n))))
      else if k0 \<in> set [''dem'', ''velocity'', ''mask'', ''temporal_coherence'', ''rmse'',
                        ''timeseries''] then
        bind (members_getitem h5f k0) (\<lambda>g. Inr (h5_attrs g))
      else Inl NameError)"

definition ref_date_default ::
  "(string \<times> 'd h5node) list \<Rightarrow> string \<Rightarrow> atr \<Rightarrow> error + atr" where
  \<comment> \<open>\<^verbatim>\<open>try: atr['ref_date']\<close>, \<^verbatim>\<open>except:\<close> the smallest epoch name\<close>
  "ref_date_default h5f k0 atr =
     (if k0 = ''timeseries'' \<and> atr ''ref_date'' = None then
        bind (members_getitem h5f k0) (\<lambda>g.
        bind (h5_keys g) (\<lambda>ks.
          case sort ks of [] \<Rightarrow> Inl IndexError
          | d # _ \<Rightarrow> Inr (atr(''ref_date'' \<mapsto> d))))
      else Inr atr)"

definition h5_attributes :: "(string \<times> 'd h5node) list \<Rightarrow> error + atr" where
  \<comment> \<open>the container branch of \<^verbatim>\<open>read_attributes\<close>, on the opened file\<close>
  "h5_attributes h5f =
     (case first_key (map fst h5f) of
        [] \<Rightarrow> Inl IndexError
      | k0 # _ \<Rightarrow>
          bind (h5_attrs_of h5f k0) (\<lambda>attrs.
            ref_date_default h5f k0 (attrs(''PROCESSOR'' \<mapsto> ''pysar'', ''FILE_TYPE'' \<mapsto> k0))))"

definition set_unit :: "atr \<Rightarrow> error + atr" where
  \<comment> \<open>the \<^verbatim>\<open># Unit - str\<close> block that ends \<^verbatim>\<open>read_attributes\<close>\<close>
  "set_unit atr =
     bind (getitem atr ''FILE_TYPE'') (\<lambda>ft.
       if ft \<in> set [''interferograms'', ''wrapped'', ''.unw'', ''.int'', ''.flat''] then
         Inr (atr(''UNIT'' \<mapsto> ''radian''))
       else if ft \<in> set [''timeseries'', ''dem'', ''.dem'', ''.hgt''] then
         Inr (atr(''UNIT'' \<mapsto> ''m''))
       else if ft \<in> set [''velocity''] then
         Inr (atr(''UNIT'' \<mapsto> ''m/yr''))
       else
         Inr (atr(''UNIT'' \<mapsto> ''1'')))"

definition tag :: "string \<Rightarrow> string \<Rightarrow> atr \<Rightarrow> error + atr" where
  \<comment> \<open>\<^verbatim>\<open>atr['PROCESSOR'] = processor; atr['FILE_TYPE'] = ext\<close>\<close>
  "tag processor ext atr = Inr (atr(''PROCESSOR'' \<mapsto> processor, ''FILE_TYPE'' \<mapsto> ext))"

definition tagged_attributes :: "('f, 'img) fsys \<Rightarrow> string \<Rightarrow> error + atr" where
  \<comment> \<open>the \<^verbatim>\<open>if/elif\<close> chain of \<^verbatim>\<open>read_attributes\<close> over the container
      extensions and the sidecar files, up to \<^verbatim>\<open>PROCESSOR\<close> and \<^verbatim>\<open>FILE_TYPE\<close>\<close>
  "tagged_attributes fs File =
     (let ext = file_ext File in
      if ext \<in> set [''.h5'', ''.he5''] then
        bind (h5 fs File) h5_attributes
      else if isfile fs (File @ ''.rsc'') then
        bind (read_roipac_rsc fs (File @ ''.rsc'')) (tag ''roipac'' ext)
      else if isfile fs (File @ ''.xml'') then
        bind (read_isce_xml fs (File @ ''.xml'')) (tag ''isce'' ext)
      else if isfile fs (File @ ''.par'') then
        bind (read_gamma_par fs (File @ ''.par'')) (tag ''gamma'' ext)
      else if isfile fs (fst (splitext File) @ ''.par'') then
        bind (read_gamma_par fs (fst (splitext File) @ ''.par'')) (tag ''gamma'' ext)
      else Inl SystemExit)"

definition read_attributes :: "('f, 'img) fsys \<Rightarrow> string \<Rightarrow> error + atr" where
  "read_attributes fs File =
     (if \<not> isfile fs File then Inl SystemExit
      else bind (tagged_attributes fs File) set_unit)"

section \<open>Library functions the decoders call\<close>

text \<open>
  What the reader takes from outside this module: \<^verbatim>\<open>float()\<close> on an attribute's
  text (\<open>None\<close> is its ValueError; the value is the rational the float denotes;
  infinities and NaN are not modelled), numpy's \<^verbatim>\<open>hypot\<close> and \<^verbatim>\<open>arctan2\<close> on
  float32 samples, and the \<^verbatim>\<open>crop\<close> method of a PIL image.
\<close>

type_synonym box = "int \<times> int \<times> int \<times> int"

record ('f, 'img) lib =
  py_float :: "string \<Rightarrow> rat option"
  np_hypot :: "'f \<Rightarrow> 'f \<Rightarrow> 'f"
  np_arctan2 :: "'f \<Rightarrow> 'f \<Rightarrow> 'f"
  image_crop :: "'img \<Rightarrow> box \<Rightarrow> 'img"

definition py_int :: "rat \<Rightarrow> int" where
  \<comment> \<open>\<^verbatim>\<open>int(x)\<close> on a float: truncation towards zero\<close>
  "py_int x = (if x < 0 then \<lceil>x\<rceil> else \<lfloor>x\<rfloor>)"

definition float_attr :: "('f, 'img) lib \<Rightarrow> atr \<Rightarrow> string \<Rightarrow> error + rat" where
  \<comment> \<open>\<^verbatim>\<open>float(atr[key])\<close>\<close>
  "float_attr lb atr key =
     bind (getitem atr key) (\<lambda>s. case py_float lb s of None \<Rightarrow> Inl ValueError | Some x \<Rightarrow> Inr x)"

definition int_attr :: "('f, 'img) lib \<Rightarrow> atr \<Rightarrow> string \<Rightarrow> error + int" where
  \<comment> \<open>\<^verbatim>\<open>int(float(atr[key]))\<close>\<close>
  "int_attr lb atr key = bind (float_attr lb atr key) (\<lambda>x. Inr (py_int x))"

subsection \<open>The product of two floats\<close>

text \<open>
  A Python float is a double. The product of two of them is their exact product rounded
  to the nearest double, a tie going to the even significand of 53 bits. Overflow to
  infinity and the subnormal range are not modelled.
\<close>

fun bit_length :: "nat \<Rightarrow> nat" where
  "bit_length n = (if n = 0 then 0 else Suc (bit_length (n div 2)))"

declare bit_length.simps [simp del]

definition ilog2 :: "rat \<Rightarrow> int" where
  \<comment> \<open>the exponent \<open>e\<close> with \<^verbatim>\<open>2**e <= x < 2**(e+1)\<close>, for a positive \<open>x\<close>\<close>
  "ilog2 x =
     (if 1 \<le> x then int (bit_length (nat \<lfloor>x\<rfloor>)) - 1
      else - int (bit_length (nat (\<lceil>1 / x\<rceil> - 1))))"

definition pow2 :: "int \<Rightarrow> rat" where
  "pow2 e = (if 0 \<le> e then 2 ^ nat e else 1 / 2 ^ nat (- e))"

definition round_half_even :: "rat \<Rightarrow> int" where
  "round_half_even x =
     (let f = \<lfloor>x\<rfloor>; d = x - of_int f in
      if d < 1 / 2 then f else if 1 / 2 < d then f + 1 else if even f then f else f + 1)"

definition round_double :: "rat \<Rightarrow> rat" where
  "round_double x =
     (if x = 0 then 0
      else (let e = ilog2 \<bar>x\<bar> - 52 in
            sgn x * of_int (round_half_even (\<bar>x\<bar> / pow2 e)) * pow2 e))"

definition float_mul :: "rat \<Rightarrow> rat \<Rightarrow> rat" where
  \<comment> \<open>\<^verbatim>\<open>a*b\<close> on two floats\<close>
  "float_mul a b = round_double (a * b)"

subsection \<open>numpy: \<^verbatim>\<open>fromfile\<close>, \<^verbatim>\<open>reshape\<close>, slices\<close>

definition fromfile :: "'a list \<Rightarrow> int \<Rightarrow> 'a list" where
  \<comment> \<open>\<^verbatim>\<open>np.fromfile(File, dtype, count)\<close> on the items of the file: the first
      \<open>count\<close> of them, fewer when the file is shorter, all of them for a negative count\<close>
  "fromfile items count = (if count < 0 then items else take (nat count) items)"

definition rows_of :: "nat \<Rightarrow> nat \<Rightarrow> 'a list \<Rightarrow> 'a matrix" where
  "rows_of r c xs = map (\<lambda>i. take c (drop (i * c) xs)) [0..<r]"

definition reshape :: "'a list \<Rightarrow> int \<Rightarrow> int \<Rightarrow> error + 'a matrix" where
  \<comment> \<open>\<^verbatim>\<open>a.reshape(r, c)\<close> on the items of \<open>a\<close> in row-major order: ValueError unless
      the sizes agree; one negative dimension is inferred from the other\<close>
  "reshape xs r c =
     (let n = int (length xs) in
      if r < 0 \<and> c < 0 then Inl ValueError
      else if r < 0 then
        (if c = 0 \<or> n mod c \<noteq> 0 then Inl ValueError
         else Inr (rows_of (nat (n div c)) (nat c) xs))
      else if c < 0 then
        (if r = 0 \<or> n mod r \<noteq> 0 then Inl ValueError
         else Inr (rows_of (nat r) (nat (n div r)) xs))
      else if r * c = n then Inr (rows_of (nat r) (nat c) xs)
      else Inl ValueError)"

definition slice_index :: "int \<Rightarrow> nat \<Rightarrow> nat" where
  \<comment> \<open>a slice bound on a sequence of length \<open>n\<close>: a negative bound counts from the
      end, and every bound is clipped to \<open>0..n\<close>\<close>
  "slice_index i n = (if i < 0 then nat (max (i + int n) 0) else min (nat i) n)"

definition py_slice :: "int \<Rightarrow> int \<Rightarrow> 'a list \<Rightarrow> 'a list" where
  \<comment> \<open>\<^verbatim>\<open>xs[i:j]\<close>\<close>
  "py_slice i j xs =
     (let a = slice_index i (length xs); b = slice_index j (length xs)
      in take (b - a) (drop a xs))"

definition slice2 :: "'a matrix \<Rightarrow> int \<Rightarrow> int \<Rightarrow> int \<Rightarrow> int \<Rightarrow> 'a matrix" where
  \<comment> \<open>\<^verbatim>\<open>data[r0:r1, c0:c1]\<close>\<close>
  "slice2 data r0 r1 c0 c1 = map (py_slice c0 c1) (py_slice r0 r1 data)"

definition crop :: "box option \<Rightarrow> 'a matrix \<Rightarrow> 'a matrix" where
  \<comment> \<open>\<^verbatim>\<open>if box: data = data[box[1]:box[3],box[0]:box[2]]\<close>\<close>
  "crop bx data = (case bx of None \<Rightarrow> data | Some (x0, y0, x1, y1) \<Rightarrow> slice2 data y0 y1 x0 x1)"

definition py_range2 :: "int \<Rightarrow> int \<Rightarrow> int list" where
  \<comment> \<open>\<^verbatim>\<open>range(start, stop, 2)\<close>\<close>
  "py_range2 start stop = map (\<lambda>i. start + 2 * int i) [0..<nat ((stop - start + 1) div 2)]"

definition take_rows :: "'a matrix \<Rightarrow> int list \<Rightarrow> error + 'a matrix" where
  \<comment> \<open>\<^verbatim>\<open>data[ids]\<close> for a list of row indices: IndexError for one out of bounds\<close>
  "take_rows data ids =
     (if list_all (\<lambda>i. - int (length data) \<le> i \<and> i < int (length data)) ids
      then Inr (map (\<lambda>i. data ! nat (if i < 0 then i + int (length data) else i)) ids)
      else Inl IndexError)"

section \<open>The decoders\<close>

definition read_float32 ::
  "('f, 'img) lib \<Rightarrow> ('f, 'img) fsys \<Rightarrow> string \<Rightarrow> box option
     \<Rightarrow> error + ('f pixel matrix \<times> 'f pixel matrix \<times> atr)" where
  \<comment> \<open>\<open>None\<close> is the call with the file alone, \<open>Some box\<close> the call with a box\<close>
  "read_float32 lb fs File args =
     bind (read_attributes fs File) (\<lambda>atr.
     bind (int_attr lb atr ''WIDTH'') (\<lambda>width.
     bind (int_attr lb atr ''FILE_LENGTH'') (\<lambda>length.
     case (case args of None \<Rightarrow> (0, 0, width, length) | Some b \<Rightarrow> b) of
       (x0, y0, x1, y1) \<Rightarrow>
         bind (reshape (fromfile (map Float32 (float32s fs File)) (y1 * 2 * width)) y1 (2 * width))
           (\<lambda>data.
              Inr (slice2 data y0 y1 x0 x1,
                   slice2 data y0 y1 (width + x0) (width + x1),
                   atr)))))"

datatype 'f complex_float32 =
    Amplitude_Phase "'f pixel matrix" "'f pixel matrix" atr
  | Complex_Data "'f pixel matrix" atr

definition read_complex_float32 ::
  "('f, 'img) lib \<Rightarrow> ('f, 'img) fsys \<Rightarrow> string \<Rightarrow> int \<Rightarrow> error + 'f complex_float32" where
  "read_complex_float32 lb fs File real_imag =
     bind (read_attributes fs File) (\<lambda>atr.
     bind (int_attr lb atr ''WIDTH'') (\<lambda>width.
     bind (int_attr lb atr ''FILE_LENGTH'') (\<lambda>length.
     bind (reshape (fromfile (complex64s fs File) (length * width)) length width) (\<lambda>data.
       if real_imag = 0 then
         bind (reshape (concat (map (map (\<lambda>(re, im). Float32 (np_hypot lb re im))) data))
                 length width) (\<lambda>amplitude.
         bind (reshape (concat (map (map (\<lambda>(re, im). Float32 (np_arctan2 lb im re))) data))
                 length width) (\<lambda>phase.
         Inr (Amplitude_Phase amplitude phase atr)))
       else Inr (Complex_Data (map (map (\<lambda>(re, im). Complex64 re im)) data) atr)))))"

definition read_real_float32 ::
  "('f, 'img) lib \<Rightarrow> ('f, 'img) fsys \<Rightarrow> string \<Rightarrow> error + ('f pixel matrix \<times> atr)" where
  "read_real_float32 lb fs File =
     bind (read_attributes fs File) (\<lambda>atr.
     bind (int_attr lb atr ''WIDTH'') (\<lambda>width.
     bind (int_attr lb atr ''FILE_LENGTH'') (\<lambda>length.
     bind (reshape (map Float32 (float32s fs File)) length width) (\<lambda>data.
     Inr (data, atr)))))"

definition read_complex_int16 ::
  "('f, 'img) lib \<Rightarrow> ('f, 'img) fsys \<Rightarrow> string \<Rightarrow> box option
     \<Rightarrow> error + ('f pixel matrix \<times> atr)" where
  "read_complex_int16 lb fs File args =
     bind (read_attributes fs File) (\<lambda>atr.
     bind (int_attr lb atr ''WIDTH'') (\<lambda>width.
     bind (int_attr lb atr ''FILE_LENGTH'') (\<lambda>length.
     case (case args of None \<Rightarrow> (0, 0, width, length) | Some b \<Rightarrow> b) of
       (x0, y0, x1, y1) \<Rightarrow>
         (let nlines = y1 - y0; WIDTH = x1 - x0 in
          bind (reshape (fromfile (int16s fs File) (y1 * 2 * width)) y1 (2 * width)) (\<lambda>data.
          bind (reshape (concat (slice2 data y0 y1 (2 * x0) (2 * x1))) (2 * nlines * WIDTH) 1)
            (\<lambda>data.
          bind (take_rows data (py_range2 0 (2 * nlines * WIDTH))) (\<lambda>re_rows.
          bind (take_rows data (py_range2 1 (2 * nlines * WIDTH))) (\<lambda>im_rows.
          bind (reshape (concat re_rows) nlines WIDTH) (\<lambda>re.
          bind (reshape (concat im_rows) nlines WIDTH) (\<lambda>im.
          Inr (map2 (map2 (\<lambda>r i. Complex128 (sint r) (sint i))) re im, atr)))))))))))"

definition read_real_int16 ::
  "('f, 'img) lib \<Rightarrow> ('f, 'img) fsys \<Rightarrow> string \<Rightarrow> error + ('f pixel matrix \<times> atr)" where
  "read_real_int16 lb fs File =
     bind (read_attributes fs File) (\<lambda>atr.
     bind (int_attr lb atr ''WIDTH'') (\<lambda>width.
     bind (int_attr lb atr ''FILE_LENGTH'') (\<lambda>length.
     bind (reshape (map Int16 (int16s fs File)) length width) (\<lambda>dem.
     Inr (dem, atr)))))"


section \<open>The public entry point: \<^verbatim>\<open>read\<close>\<close>

text \<open>
  What \<^verbatim>\<open>read\<close> returns: \<^verbatim>\<open>data, atr\<close>, or \<^verbatim>\<open>rg, az, atr\<close>, or the integer
  \<^verbatim>\<open>0\<close> of its last branch. The data is an array or, for a browsable image, the PIL
  image.
\<close>

datatype ('f, 'img) data = Array "'f pixel matrix" | Picture 'img

datatype ('f, 'img) result =
    One_Plane "('f, 'img) data" atr
  | Two_Planes "('f, 'img) data" "('f, 'img) data" atr
  | Zero

fun planes :: "('f, 'img) result \<Rightarrow> nat" where
  "planes (One_Plane _ _) = 1"
| "planes (Two_Planes _ _ _) = 2"
| "planes Zero = 0"

fun result_atr :: "('f, 'img) result \<Rightarrow> atr option" where
  "result_atr (One_Plane _ a) = Some a"
| "result_atr (Two_Planes _ _ a) = Some a"
| "result_atr Zero = None"

definition update_attributes :: "('f, 'img) lib \<Rightarrow> atr \<Rightarrow> box option \<Rightarrow> error + atr" where
  \<comment> \<open>the block \<^verbatim>\<open># Update attributes if subset\<close>. The module imports no
      \<^verbatim>\<open>subset\<close>: the call \<^verbatim>\<open>subset.subset_attributes(atr, box)\<close> raises
      NameError when the name is looked up\<close>
  "update_attributes lb atr bx =
     (case bx of
        None \<Rightarrow> Inr atr
      | Some (x0, y0, x1, y1) \<Rightarrow>
          bind (float_attr lb atr ''WIDTH'') (\<lambda>width.
          bind (float_attr lb atr ''FILE_LENGTH'') (\<lambda>length.
            if of_int ((x1 - x0) * (y1 - y0)) < float_mul width length
            then Inl NameError
            else Inr atr)))"

definition dataset_crop ::
  "'d h5node option \<Rightarrow> box option \<Rightarrow> error + 'd matrix" where
  \<comment> \<open>\<^verbatim>\<open>dset[box[1]:box[3],box[0]:box[2]]\<close> or \<^verbatim>\<open>dset[:,:]\<close>: TypeError when
      \<^verbatim>\<open>dset\<close> is \<^verbatim>\<open>None\<close> or a group\<close>
  "dataset_crop dset bx =
     (case dset of
        Some (H5Dataset _ d) \<Rightarrow> Inr (crop bx d)
      | _ \<Rightarrow> Inl TypeError)"

definition hdf5_dataset ::
  "('f, 'img) fsys \<Rightarrow> string \<Rightarrow> atr \<Rightarrow> string \<Rightarrow> error + 'f pixel h5node option" where
  \<comment> \<open>the block \<^verbatim>\<open># Read Dataset\<close>: \<^verbatim>\<open>dset\<close>, which \<^verbatim>\<open>get\<close> leaves
      \<^verbatim>\<open>None\<close> for a missing name; with no branch taken \<^verbatim>\<open>dset\<close> is unbound\<close>
  "hdf5_dataset fs File atr epoch =
     bind (h5 fs File) (\<lambda>h5file.
     bind (getitem atr ''FILE_TYPE'') (\<lambda>k.
       if k \<in> set [''interferograms'', ''coherence'', ''wrapped'', ''timeseries''] then
         bind (members_getitem h5file k) (\<lambda>g.
         bind (h5_keys g) (\<lambda>epochList.
           if k \<in> set [''timeseries''] then h5_get h5file g epoch
           else bind (h5_getitem h5file g epoch) (\<lambda>e. h5_get h5file e epoch)))
       else if k \<in> set [''dem'', ''mask'', ''rmse'', ''temporal_coherence'', ''velocity''] then
         bind (members_getitem h5file k) (\<lambda>g. h5_get h5file g k)
       else Inl NameError))"

definition read_hdf5 ::
  "('f, 'img) fsys \<Rightarrow> string \<Rightarrow> atr \<Rightarrow> box option \<Rightarrow> string \<Rightarrow> error + ('f, 'img) result" where
  \<comment> \<open>the branch \<^verbatim>\<open>##### HDF5\<close>: the dataset, then the block \<^verbatim>\<open># Crop\<close>\<close>
  "read_hdf5 fs File atr bx epoch =
     bind (hdf5_dataset fs File atr epoch) (\<lambda>dset.
     bind (dataset_crop dset bx) (\<lambda>data.
     Inr (One_Plane (Array data) atr)))"

definition read_image ::
  "('f, 'img) lib \<Rightarrow> ('f, 'img) fsys \<Rightarrow> string \<Rightarrow> box option \<Rightarrow> error + ('f, 'img) result" where
  \<comment> \<open>the branch \<^verbatim>\<open>##### Image\<close>\<close>
  "read_image lb fs File bx =
     bind (read_roipac_rsc fs (File @ ''.rsc'')) (\<lambda>atr.
     bind (image fs File) (\<lambda>data.
     Inr (One_Plane (Picture (case bx of None \<Rightarrow> data | Some b \<Rightarrow> image_crop lb data b)) atr)))"

definition unpack3 ::
  "error + 'f complex_float32 \<Rightarrow> error + ('f pixel matrix \<times> 'f pixel matrix \<times> atr)" where
  \<comment> \<open>\<^verbatim>\<open>a, b, atr = read_complex_float32(File)\<close>: unpacking into three names;
      a pair does not unpack\<close>
  "unpack3 m =
     bind m (\<lambda>r. case r of Amplitude_Phase amp pha atr \<Rightarrow> Inr (amp, pha, atr)
                   | Complex_Data _ _ \<Rightarrow> Inl ValueError)"

definition read_isce ::
  "('f, 'img) lib \<Rightarrow> ('f, 'img) fsys \<Rightarrow> string \<Rightarrow> string \<Rightarrow> box option
     \<Rightarrow> error + ('f, 'img) result" where
  \<comment> \<open>the branch \<^verbatim>\<open>##### ISCE\<close>; its last \<^verbatim>\<open>else\<close> prints the undefined name
      \<^verbatim>\<open>processfor\<close>\<close>
  "read_isce lb fs File ext bx =
     bind
       (if ext \<in> set [''.flat''] then
          bind (unpack3 (read_complex_float32 lb fs File 0)) (\<lambda>(amp, data, atr). Inr (data, atr))
        else if ext \<in> set [''.cor''] then read_real_float32 lb fs File
        else if ext \<in> set [''.slc''] then
          bind (unpack3 (read_complex_float32 lb fs File 0)) (\<lambda>(data, pha, atr). Inr (data, atr))
        else Inl NameError)
       (\<lambda>(data, atr). Inr (One_Plane (Array (crop bx data)) atr))"

definition read_roipac ::
  "('f, 'img) lib \<Rightarrow> ('f, 'img) fsys \<Rightarrow> string \<Rightarrow> string \<Rightarrow> box option
     \<Rightarrow> error + ('f, 'img) result" where
  \<comment> \<open>the branch \<^verbatim>\<open>##### ROI_PAC\<close>, which also serves the gamma files\<close>
  "read_roipac lb fs File ext bx =
     (if ext \<in> set [''.unw'', ''.cor'', ''.hgt''] then
        bind (read_float32 lb fs File bx) (\<lambda>(amp, pha, atr). Inr (One_Plane (Array pha) atr))
      else if ext = ''.dem'' then
        bind (read_real_int16 lb fs File) (\<lambda>(dem, atr).
          Inr (One_Plane (Array (crop bx dem)) atr))
      else if ext = ''.int'' then
        bind (unpack3 (read_complex_float32 lb fs File 0)) (\<lambda>(amp, pha, atr).
          Inr (One_Plane (Array (crop bx pha)) atr))
      else if ext = ''.trans'' then
        bind (read_float32 lb fs File bx) (\<lambda>(rg, az, atr).
          Inr (Two_Planes (Array rg) (Array az) atr))
      else if ext = ''.mli'' then
        bind (read_real_float32 lb fs File) (\<lambda>(data, atr).
          Inr (One_Plane (Array (crop bx data)) atr))
      else if ext = ''.slc'' then
        bind (read_complex_int16 lb fs File bx) (\<lambda>(data, atr).
          Inr (One_Plane (Array data) atr))
      else Inl NameError)"

definition read ::
  "('f, 'img) lib \<Rightarrow> ('f, 'img) fsys \<Rightarrow> string \<Rightarrow> box option \<Rightarrow> string
     \<Rightarrow> error + ('f, 'img) result" where
  \<comment> \<open>\<^verbatim>\<open>read(File, box, epoch)\<close>; \<open>None\<close> is the empty tuple, the default box\<close>
  "read lb fs File bx epoch =
     (let ext = file_ext File in
      bind (read_attributes fs File) (\<lambda>atr.
      bind (getitem atr ''PROCESSOR'') (\<lambda>processor.
      bind (update_attributes lb atr bx) (\<lambda>atr.
        if ext \<in> set [''.h5'', ''.he5''] then read_hdf5 fs File atr bx epoch
        else if ext \<in> set [''.jpeg'', ''.jpg'', ''.png'', ''.ras'', ''.bmp''] then
          read_image lb fs File bx
        else if processor = ''isce'' then read_isce lb fs File ext bx
        else if processor \<in> set [''roipac'', ''gamma''] then read_roipac lb fs File ext bx
        else Inr Zero))))"


section \<open>The specification's words, for comparison with the code\<close>

text \<open>
  The entries of a positional-parameter file as the specification lists them: one for
  every line that is not a comment and has two tokens, the first token being the key
  and the second token up to its first \<^verbatim>\<open>#\<close> the value.
\<close>

definition par_entry :: "string \<Rightarrow> (string \<times> string) option" where
  "par_entry line =
     (if startswith line CHR ''%'' \<or> startswith line CHR ''#'' then None
      else (case split line of t0 # t1 # _ \<Rightarrow> Some (t0, before_hash t1) | _ \<Rightarrow> None))"

definition par_entries :: "string list \<Rightarrow> (string \<times> string) list" where
  "par_entries ls = List.map_filter par_entry ls"

definition unit_of :: "string \<Rightarrow> string" where
  \<comment> \<open>the table from \<^verbatim>\<open>FILE_TYPE\<close> to \<^verbatim>\<open>UNIT\<close>\<close>
  "unit_of ft =
     (if ft \<in> set [''interferograms'', ''wrapped'', ''.unw'', ''.int'', ''.flat''] then ''radian''
      else if ft \<in> set [''timeseries'', ''dem'', ''.dem'', ''.hgt''] then ''m''
      else if ft \<in> set [''velocity''] then ''m/yr''
      else ''1'')"

definition dict_get :: "error + atr \<Rightarrow> string \<Rightarrow> error + string option" where
  \<comment> \<open>\<^verbatim>\<open>d.get(key)\<close> on the mapping a call returned\<close>
  "dict_get r k = bind r (\<lambda>d. Inr (d k))"

text \<open>
  Modelled from the spec: the output kind of the decode strategy that the Binary Layout
  Registry of the specification gives a processor and a file type. The code has no such
  table; its \<^verbatim>\<open>read\<close> branches on the processor and the extension.
\<close>

datatype output_kind = Real_Valued | Amplitude_Phase_Kind | Complex_Valued

definition registry_output_kind :: "string \<Rightarrow> string \<Rightarrow> output_kind option" where
  \<comment> \<open>Modelled from the spec: section 4.3, in its order\<close>
  "registry_output_kind processor ext =
     (if processor = ''isce'' \<and> ext = ''.flat'' then Some Complex_Valued
      else if processor = ''isce'' \<and> ext = ''.cor'' then Some Real_Valued
      else if processor = ''isce'' \<and> ext = ''.slc'' then Some Complex_Valued
      else if processor = ''roipac'' \<and> ext \<in> set [''.unw'', ''.cor'', ''.hgt'']
        then Some Amplitude_Phase_Kind
      else if processor = ''roipac'' \<and> ext = ''.dem'' then Some Real_Valued
      else if processor = ''roipac'' \<and> ext = ''.int'' then Some Amplitude_Phase_Kind
      else if processor = ''roipac'' \<and> ext = ''.slc'' then Some Complex_Valued
      else if processor = ''gamma'' \<and> ext = ''.mli'' then Some Real_Valued
      else None)"

section \<open>Example inputs\<close>

definition gamma_par_example :: string where
  "gamma_par_example =
     ''dummy\<newline>dummy\<newline>range_samples: 100\<newline>azimuth_lines: 50\<newline>''"

definition digit :: "char \<Rightarrow> nat option" where
  "digit c = map_of (zip ''0123456789'' [0, 1, 2, 3, 4, 5, 6, 7, 8, 9]) c"

fun decimal :: "nat \<Rightarrow> string \<Rightarrow> nat option" where
  "decimal n [] = Some n"
| "decimal n (c # cs) = (case digit c of None \<Rightarrow> None | Some d \<Rightarrow> decimal (10 * n + d) cs)"

definition float_of_decimal :: "string \<Rightarrow> rat option" where
  \<comment> \<open>\<^verbatim>\<open>float()\<close> on the texts of the examples: unsigned decimal integers\<close>
  "float_of_decimal s = (if s = [] then None else map_option of_nat (decimal 0 s))"

definition example_lib :: "(real, unit) lib" where
  "example_lib =
     \<lparr> py_float = float_of_decimal,
       np_hypot = (\<lambda>a b. sqrt (a * a + b * b)),
       np_arctan2 = (\<lambda>y x. Arg (Complex x y)),
       image_crop = (\<lambda>img bx. img) \<rparr>"

definition example_rsc :: atr where
  "example_rsc = [''WIDTH'' \<mapsto> ''2'', ''FILE_LENGTH'' \<mapsto> ''1'', ''UNIT'' \<mapsto> ''dB'']"

definition example_velocity :: "(string \<times> real pixel h5node) list" where
  "example_velocity =
     [(''velocity'',
       H5Group [''WIDTH'' \<mapsto> ''2'', ''FILE_LENGTH'' \<mapsto> ''2'']
         [(''velocity'',
           H5Dataset Map.empty [[Float32 1, Float32 2], [Float32 3, Float32 4]])])]"

definition example_timeseries :: "(string \<times> real pixel h5node) list" where
  "example_timeseries =
     [(''timeseries'',
       H5Group [''WIDTH'' \<mapsto> ''2'', ''FILE_LENGTH'' \<mapsto> ''1'']
         [(''20100101'', H5Dataset Map.empty [[Float32 0, Float32 0]]),
          (''20100212'', H5Dataset Map.empty [[Float32 5, Float32 6]])])]"

definition example_mask :: "(string \<times> real pixel h5node) list" where
  \<comment> \<open>a container that declares one sample over a dataset of two rows of two\<close>
  "example_mask =
     [(''mask'',
       H5Group [''WIDTH'' \<mapsto> ''1'', ''FILE_LENGTH'' \<mapsto> ''1'']
         [(''mask'',
           H5Dataset Map.empty [[Float32 1, Float32 2], [Float32 3, Float32 4]])])]"

definition example_wide :: "(string \<times> real pixel h5node) list" where
  \<comment> \<open>a container whose declared sizes have a product that is no double\<close>
  "example_wide =
     [(''rmse'',
       H5Group [''WIDTH'' \<mapsto> ''100000001'', ''FILE_LENGTH'' \<mapsto> ''100000003'']
         [(''rmse'', H5Dataset Map.empty [[Float32 7]])])]"

definition example_fs :: "(real, unit) fsys" where
  "example_fs =
     \<lparr> isfile = (\<lambda>p. p \<in> set [''a.unw'', ''a.unw.rsc'', ''g.trans'', ''g.trans.rsc'',
                                ''i.int'', ''i.int.rsc'', ''s.slc'', ''s.slc.rsc'',
                                ''v.h5'', ''ts.h5'', ''m.h5'', ''w.h5'']),
       text_of = Map.empty,
       rsc = (\<lambda>p. if p \<in> set [''a.unw.rsc'', ''g.trans.rsc'', ''i.int.rsc'', ''s.slc.rsc'']
                    then Inr example_rsc else Inl IOError),
       xml = (\<lambda>p. Inl IOError),
       h5 = (\<lambda>p. if p = ''v.h5'' then Inr example_velocity
                   else if p = ''ts.h5'' then Inr example_timeseries
                   else if p = ''m.h5'' then Inr example_mask
                   else if p = ''w.h5'' then Inr example_wide
                   else Inl IOError),
       float32s = (\<lambda>p. [1, 2, 3, 4]),
       complex64s = (\<lambda>p. [(3, 4), (3, 4)]),
       int16s = (\<lambda>p. [1, 2, 3, 4]),
       image = (\<lambda>p. Inl IOError) \<rparr>"


definition plane_count :: "error + ('f, 'img) result \<Rightarrow> error + nat" where
  \<comment> \<open>the number of data planes a call returned\<close>
  "plane_count r = bind r (\<lambda>x. Inr (planes x))"

definition result_get :: "error + ('f, 'img) result \<Rightarrow> string \<Rightarrow> error + string option" where
  \<comment> \<open>\<^verbatim>\<open>atr.get(key)\<close> on the mapping a call to \<^verbatim>\<open>read\<close> returned with its data\<close>
  "result_get r k =
     bind r (\<lambda>x. case result_atr x of None \<Rightarrow> Inl TypeError | Some a \<Rightarrow> Inr (a k))"

section \<open>Basic facts\<close>

lemma bind_Inl [simp]: "bind (Inl e) f = Inl e"
  by (simp add: bind_def)

lemma bind_Inr [simp]: "bind (Inr x) f = f x"
  by (simp add: bind_def)

lemma bind_eq_Inr: "bind m f = Inr y \<longleftrightarrow> (\<exists>x. m = Inr x \<and> f x = Inr y)"
  by (cases m) simp_all

lemma getitem_eq_Inr: "getitem d k = Inr v \<longleftrightarrow> d k = Some v"
  by (simp add: getitem_def split: option.splits)

lemmas path_defs = file_ext_def splitext_def rfind_def lower_def lower_char_def

section \<open>The product of two floats\<close>

lemma bit_length_numeral [simp]:
  "bit_length 0 = 0" "bit_length (Suc 0) = 1"
  "bit_length (numeral (Num.Bit0 n)) = Suc (bit_length (numeral n))"
  "bit_length (numeral (Num.Bit1 n)) = Suc (bit_length (numeral n))"
proof -
  show "bit_length 0 = 0" by (simp add: bit_length.simps)
  show "bit_length (Suc 0) = 1" by (simp add: bit_length.simps)
  show "bit_length (numeral (Num.Bit0 n)) = Suc (bit_length (numeral n))"
    by (subst bit_length.simps) simp
  show "bit_length (numeral (Num.Bit1 n)) = Suc (bit_length (numeral n))"
    by (subst bit_length.simps) simp
qed

lemma floor_rat_numeral [simp]:
  "\<lfloor>numeral a / numeral b :: rat\<rfloor> = numeral a div numeral b"
  using floor_divide_of_int_eq [of "numeral a" "numeral b", where ?'a = rat] by simp

lemma bit_length_le: "n < 2 ^ k \<Longrightarrow> bit_length n \<le> k"
proof (induction k arbitrary: n)
  case 0
  then show ?case by (simp add: bit_length.simps)
next
  case (Suc k)
  show ?case
  proof (cases "n = 0")
    case True
    then show ?thesis by (simp add: bit_length.simps)
  next
    case False
    from Suc.prems have "n div 2 < 2 ^ k" by simp
    then have "bit_length (n div 2) \<le> k" by (rule Suc.IH)
    with False show ?thesis by (subst bit_length.simps) simp
  qed
qed

lemma round_half_even_of_int [simp]: "round_half_even (of_int k) = k"
  by (simp add: round_half_even_def)

text \<open>An integer below \<open>2\<^sup>5\<^sup>3\<close> in magnitude is a double.\<close>

lemma round_double_of_int:
  assumes "\<bar>n\<bar> < 2 ^ 53"
  shows "round_double (of_int n) = of_int n"
proof (cases "n = 0")
  case True
  then show ?thesis by (simp add: round_double_def)
next
  case False
  define m where "m = nat \<bar>n\<bar>"
  have m: "0 < m" "m < 2 ^ 53" "\<bar>of_int n :: rat\<bar> = of_nat m" "\<bar>n\<bar> = int m"
    using False assms by (auto simp: m_def)
  have "bit_length m \<le> 53" using m(2) by (rule bit_length_le)
  moreover have "1 \<le> bit_length m" using m(1) by (subst bit_length.simps) simp
  ultimately have "\<exists>k. int (bit_length m) - 1 - 52 = - int k"
    by (intro exI [of _ "53 - bit_length m"]) simp
  then obtain k where k: "int (bit_length m) - 1 - 52 = - int k" ..
  have one: "(1::rat) \<le> of_nat m" using m(1) by simp
  have il: "ilog2 (of_nat m) - 52 = - int k"
    using k one by (simp add: ilog2_def)
  have p: "pow2 (- int k) = 1 / 2 ^ k"
    by (cases "k = 0") (simp_all add: pow2_def)
  have "(of_nat m :: rat) / (1 / 2 ^ k) = of_int (int m * 2 ^ k)"
    by simp
  then have r: "round_half_even (of_nat m / (1 / 2 ^ k)) = int m * 2 ^ k"
    by (simp only: round_half_even_of_int)
  have "round_double (of_int n) =
      sgn (of_int n) * of_int (round_half_even (\<bar>of_int n\<bar> / pow2 (ilog2 \<bar>of_int n\<bar> - 52)))
        * pow2 (ilog2 \<bar>of_int n\<bar> - 52)"
    using False by (simp add: round_double_def Let_def)
  also have "\<dots> = sgn (of_int n) * of_int (int m * 2 ^ k) * (1 / 2 ^ k)"
    by (simp only: m(3) il p r)
  also have "\<dots> = sgn (of_int n) * of_nat m" by simp
  also have "\<dots> = of_int n"
  proof (cases "0 < n")
    case True
    then show ?thesis by (simp add: m_def)
  next
    case neg: False
    with False have "n < 0" by simp
    then show ?thesis by (simp add: m_def)
  qed
  finally show ?thesis .
qed

lemma float_mul_of_int:
  assumes "\<bar>w * l\<bar> < 2 ^ 53"
  shows "float_mul (of_int w) (of_int l) = of_int (w * l)"
  using round_double_of_int [OF assms] by (simp add: float_mul_def)

lemma float_mul_examples:
  "float_mul 1 1 = 1" "float_mul 2 1 = 2" "float_mul 2 2 = 4"
  using float_mul_of_int [of 1 1] float_mul_of_int [of 2 1] float_mul_of_int [of 2 2]
  by simp_all

text \<open>
  The product of 100000001 and 100000003 lies halfway between two doubles, and is
  rounded up to the one with the even significand.
\<close>

lemma float_mul_rounds_up: "float_mul 100000001 100000003 = 10000000400000004"
proof -
  have "ilog2 10000000400000003 = 53"
    by (simp add: ilog2_def)
  then show ?thesis
    by (simp add: float_mul_def round_double_def pow2_def round_half_even_def Let_def)
qed

section \<open>Names that are no paths\<close>

lemma path_acc_plain: "CHR ''/'' \<notin> set name \<Longrightarrow> path_acc seg name = [seg @ name]"
  by (induction name arbitrary: seg) auto

text \<open>
  A name that is not empty, is not \<^verbatim>\<open>.\<close> and holds no \<^verbatim>\<open>/\<close> is looked up among
  the members of the group.
\<close>

lemma h5_resolve_plain:
  assumes "name \<noteq> []" and "name \<noteq> ''.''" and "CHR ''/'' \<notin> set name"
  shows "h5_resolve top_members (H5Group a ms) name = map_of ms name"
proof -
  from assms(1,3) have "hd name \<noteq> CHR ''/''"
    by (cases name) auto
  moreover from assms have "h5_components name = [name]"
    by (simp add: h5_components_def path_acc_plain)
  ultimately show ?thesis
    using assms(1) by (simp add: h5_resolve_def split: option.splits)
qed

section \<open>The positional-parameter parser\<close>

lemma split_acc_no_space:
  "\<forall>c \<in> set tok. \<not> isspace c \<Longrightarrow> t \<in> set (split_acc tok s) \<Longrightarrow> c \<in> set t \<Longrightarrow> \<not> isspace c"
proof (induction s arbitrary: tok)
  case Nil
  then show ?case by (cases "tok = []") auto
next
  case (Cons d ds)
  show ?case
  proof (cases "isspace d")
    case sp: True
    show ?thesis
    proof (cases "tok = []")
      case True
      with sp Cons.prems have "t \<in> set (split_acc [] ds)" by simp
      from Cons.IH [OF _ this Cons.prems(3)] show ?thesis by simp
    next
      case False
      with sp Cons.prems have "t = tok \<or> t \<in> set (split_acc [] ds)" by auto
      then show ?thesis
      proof
        assume "t = tok"
        with Cons.prems show ?thesis by blast
      next
        assume "t \<in> set (split_acc [] ds)"
        from Cons.IH [OF _ this Cons.prems(3)] show ?thesis by simp
      qed
    qed
  next
    case False
    with Cons.prems have "t \<in> set (split_acc (tok @ [d]) ds)" by simp
    moreover have "\<forall>c \<in> set (tok @ [d]). \<not> isspace c"
      using False Cons.prems(1) by auto
    ultimately show ?thesis using Cons.IH Cons.prems(3) by blast
  qed
qed

lemma split_no_space: "t \<in> set (split line) \<Longrightarrow> c \<in> set t \<Longrightarrow> \<not> isspace c"
  using split_acc_no_space [of "[]" t line c] by (simp add: split_def)

lemma dropWhile_none: "\<forall>c \<in> set t. \<not> P c \<Longrightarrow> dropWhile P t = t"
  by (cases t) simp_all

lemma strip_id: "\<forall>c \<in> set t. \<not> isspace c \<Longrightarrow> strip t = t"
  by (simp add: strip_def dropWhile_none)

lemma drop_newlines_id: "\<forall>c \<in> set t. \<not> isspace c \<Longrightarrow> drop_newlines t = t"
  unfolding drop_newlines_def filter_id_conv by (auto simp: isspace_def)

lemma before_hash_no_space:
  "\<forall>c \<in> set t. \<not> isspace c \<Longrightarrow> \<forall>c \<in> set (before_hash t). \<not> isspace c"
  unfolding before_hash_def by (blast dest: set_takeWhileD)

text \<open>
  One turn of the loop stores the entry of the line, if it has one: \<^verbatim>\<open>strip\<close> and the
  removal of newlines change nothing on a token.
\<close>

lemma par_line_entry:
  "par_line d line = (case par_entry line of None \<Rightarrow> d | Some (k, v) \<Rightarrow> d(k \<mapsto> v))"
proof (cases "split line")
  case Nil
  then show ?thesis by (simp add: par_line_def par_entry_def)
next
  case (Cons t0 ts)
  note c1 = this
  show ?thesis
  proof (cases ts)
    case Nil
    with c1 show ?thesis by (simp add: par_line_def par_entry_def)
  next
    case (Cons t1 us)
    have m0: "t0 \<in> set (split line)" and m1: "t1 \<in> set (split line)"
      using c1 Cons by simp_all
    have s0: "strip t0 = t0"
      using split_no_space [OF m0] by (intro strip_id) blast
    have n1: "\<forall>c \<in> set t1. \<not> isspace c"
      using split_no_space [OF m1] by blast
    have s1: "strip (before_hash (drop_newlines t1)) = before_hash t1"
      using n1 by (simp add: drop_newlines_id strip_id before_hash_no_space)
    show ?thesis
      using c1 Cons s0 s1 by (simp add: par_line_def par_entry_def)
  qed
qed

lemma foldl_par_line:
  "foldl par_line d ls = d ++ map_of (rev (par_entries ls))"
proof (induction ls arbitrary: d)
  case Nil
  then show ?case by (simp add: par_entries_def)
next
  case (Cons l ls)
  have step: "foldl par_line d (l # ls) = par_line d l ++ map_of (rev (par_entries ls))"
    using Cons [of "par_line d l"] by simp
  show ?case
  proof (cases "par_entry l")
    case None
    have "par_line d l = d" by (simp add: par_line_entry [of d l] None)
    moreover have "par_entries (l # ls) = par_entries ls"
      using None by (simp add: par_entries_def)
    ultimately show ?thesis using step by simp
  next
    case (Some kv)
    obtain k v where kv: "kv = (k, v)" by (cases kv)
    have "par_line d l = d(k \<mapsto> v)" by (simp add: par_line_entry [of d l] Some kv)
    moreover have "par_entries (l # ls) = (k, v) # par_entries ls"
      using Some kv by (simp add: par_entries_def)
    ultimately show ?thesis using step by (simp add: map_add_upd_left)
  qed
qed

lemma read_gamma_par_text_lines:
  "readlines content = l1 # l2 # rest \<Longrightarrow>
   read_gamma_par_text content =
     (case map_of (rev (par_entries rest)) ''range_samples:'' of
             None \<Rightarrow> Inl KeyError
           | Some w \<Rightarrow>
               (case map_of (rev (par_entries rest)) ''azimuth_lines:'' of
                  None \<Rightarrow> Inl KeyError
                | Some l \<Rightarrow>
                    Inr ((map_of (rev (par_entries rest)))
                           (''WIDTH'' \<mapsto> w, ''FILE_LENGTH'' \<mapsto> l))))"
  by (simp add: read_gamma_par_text_def foldl_par_line getitem_def split: option.splits)

lemma gamma_par_example_result:
  "read_gamma_par_text gamma_par_example =
     Inr [''range_samples:'' \<mapsto> ''100'', ''azimuth_lines:'' \<mapsto> ''50'',
          ''WIDTH'' \<mapsto> ''100'', ''FILE_LENGTH'' \<mapsto> ''50'']"
  by (simp add: gamma_par_example_def read_gamma_par_text_def par_line_def split_def
      isspace_def strip_def startswith_def before_hash_def drop_newlines_def getitem_def)

text \<open>
  C4, as the code has it. \<^verbatim>\<open>read_gamma_par\<close> skips the first two lines of the file
  (StopIteration when there are fewer). Every later line that is not a comment and has
  at least two whitespace-separated tokens stores token 0 as the key, unchanged, so
  with its trailing colon, and token 1 up to its first \<^verbatim>\<open>#\<close> as the value; a later
  line overwrites an earlier one with the same key. \<^verbatim>\<open>WIDTH\<close> is then the value
  of the key \<^verbatim>\<open>range_samples:\<close> and \<^verbatim>\<open>FILE_LENGTH\<close> the value of the key
  \<^verbatim>\<open>azimuth_lines:\<close>, and the call fails with KeyError when either key is absent.
\<close>

theorem read_gamma_par_entries:
  "read_gamma_par_text content =
     (case readlines content of
        l1 # l2 # rest \<Rightarrow>
          (case map_of (rev (par_entries rest)) ''range_samples:'' of
             None \<Rightarrow> Inl KeyError
           | Some w \<Rightarrow>
               (case map_of (rev (par_entries rest)) ''azimuth_lines:'' of
                  None \<Rightarrow> Inl KeyError
                | Some l \<Rightarrow>
                    Inr ((map_of (rev (par_entries rest)))
                           (''WIDTH'' \<mapsto> w, ''FILE_LENGTH'' \<mapsto> l))))
      | _ \<Rightarrow> Inl StopIteration)"
proof (cases "readlines content")
  case Nil
  then show ?thesis by (simp add: read_gamma_par_text_def)
next
  case (Cons l1 ls)
  note c1 = this
  show ?thesis
  proof (cases ls)
    case Nil
    with c1 show ?thesis by (simp add: read_gamma_par_text_def)
  next
    case (Cons l2 rest)
    with c1 have "readlines content = l1 # l2 # rest" by simp
    from read_gamma_par_text_lines [OF this] this show ?thesis by simp
  qed
qed

text \<open>
  The example of the specification: the file
  \<^verbatim>\<open>dummy\ndummy\nrange_samples: 100\nazimuth_lines: 50\n\<close> yields \<^verbatim>\<open>WIDTH\<close> 100 and
  \<^verbatim>\<open>FILE_LENGTH\<close> 50.
\<close>

theorem read_gamma_par_entries_witness:
  "dict_get (read_gamma_par_text gamma_par_example) ''WIDTH'' = Inr (Some ''100'') \<and>
   dict_get (read_gamma_par_text gamma_par_example) ''FILE_LENGTH'' = Inr (Some ''50'')"
proof -
  have lines: "readlines gamma_par_example =
      [''dummy\<newline>'', ''dummy\<newline>'', ''range_samples: 100\<newline>'', ''azimuth_lines: 50\<newline>'']"
    by (simp add: gamma_par_example_def)
  have entries: "par_entries [''range_samples: 100\<newline>'', ''azimuth_lines: 50\<newline>''] =
      [(''range_samples:'', ''100''), (''azimuth_lines:'', ''50'')]"
    by (simp add: par_entries_def par_entry_def split_def isspace_def startswith_def
        before_hash_def)
  show ?thesis
    using read_gamma_par_entries [of gamma_par_example]
    by (simp add: lines entries dict_get_def)
qed

text \<open>
  The claim as stated fails on the same file: the key stored for the first token
  \<^verbatim>\<open>range_samples:\<close> is not \<^verbatim>\<open>range_samples\<close>; the colon is kept.
\<close>

theorem gamma_par_colon_kept:
  "dict_get (read_gamma_par_text gamma_par_example) ''range_samples'' = Inr None \<and>
   dict_get (read_gamma_par_text gamma_par_example) ''range_samples:'' = Inr (Some ''100'')"
  by (simp add: gamma_par_example_result dict_get_def)

section \<open>The unit of a file type\<close>

lemma set_unit_Inr:
  assumes "set_unit a = Inr atr"
  shows "\<exists>ft. a ''FILE_TYPE'' = Some ft \<and> atr = a(''UNIT'' \<mapsto> unit_of ft)"
proof -
  from assms obtain ft where ft: "a ''FILE_TYPE'' = Some ft"
    by (auto simp: set_unit_def bind_eq_Inr getitem_eq_Inr)
  then have "set_unit a = Inr (a(''UNIT'' \<mapsto> unit_of ft))"
    by (simp add: set_unit_def getitem_def unit_of_def)
  with assms ft show ?thesis by simp
qed

lemma read_attributes_set_unit:
  assumes "read_attributes fs File = Inr atr"
  shows "\<exists>a. set_unit a = Inr atr"
  using assms by (auto simp: read_attributes_def bind_eq_Inr split: if_splits)

lemma read_attributes_type_unit:
  assumes "read_attributes fs File = Inr atr"
  shows "\<exists>ft. atr ''FILE_TYPE'' = Some ft \<and> atr ''UNIT'' = Some (unit_of ft)"
proof -
  from read_attributes_set_unit [OF assms] obtain a where "set_unit a = Inr atr" ..
  from set_unit_Inr [OF this] show ?thesis by auto
qed

lemma example_unw_attributes:
  "read_attributes example_fs ''a.unw'' =
     Inr (example_rsc(''PROCESSOR'' \<mapsto> ''roipac'', ''FILE_TYPE'' \<mapsto> ''.unw'',
            ''UNIT'' \<mapsto> ''radian''))"
  by (simp add: read_attributes_def tagged_attributes_def example_fs_def path_defs
      read_roipac_rsc_def tag_def set_unit_def getitem_def)

text \<open>
  C7. Whenever \<^verbatim>\<open>read_attributes\<close> returns a mapping, the mapping has a
  \<^verbatim>\<open>FILE_TYPE\<close>, and its \<^verbatim>\<open>UNIT\<close> is the entry of the fixed table for that file
  type: \<^verbatim>\<open>radian\<close> for the interferogram, wrapped and fringe types, \<^verbatim>\<open>m\<close> for
  the time-series and elevation types, \<^verbatim>\<open>m/yr\<close> for velocity, and \<^verbatim>\<open>1\<close> for every
  other type.
\<close>

theorem read_attributes_unit_table:
  assumes "read_attributes fs File = Inr atr"
  shows "\<exists>ft. atr ''FILE_TYPE'' = Some ft \<and>
    atr ''UNIT'' = Some
      (if ft \<in> {''interferograms'', ''wrapped'', ''.unw'', ''.int'', ''.flat''} then ''radian''
       else if ft \<in> {''timeseries'', ''dem'', ''.dem'', ''.hgt''} then ''m''
       else if ft = ''velocity'' then ''m/yr''
       else ''1'')"
proof -
  from read_attributes_type_unit [OF assms] obtain ft
    where "atr ''FILE_TYPE'' = Some ft" "atr ''UNIT'' = Some (unit_of ft)" by blast
  then show ?thesis by (simp add: unit_of_def)
qed

theorem read_attributes_unit_table_witness:
  "dict_get (read_attributes example_fs ''a.unw'') ''FILE_TYPE'' = Inr (Some ''.unw'') \<and>
   dict_get (read_attributes example_fs ''a.unw'') ''UNIT'' = Inr (Some ''radian'')"
  using read_attributes_unit_table [OF example_unw_attributes]
  by (simp add: example_unw_attributes dict_get_def)

text \<open>
  C9. Whenever \<^verbatim>\<open>read_attributes\<close> returns, the mapping it returns is the mapping
  parsed from the sidecar or the container (with its \<^verbatim>\<open>PROCESSOR\<close> and
  \<^verbatim>\<open>FILE_TYPE\<close>) in which \<^verbatim>\<open>UNIT\<close> has been set to the entry of the fixed table
  for the \<^verbatim>\<open>FILE_TYPE\<close>, whatever \<^verbatim>\<open>UNIT\<close> the parsed mapping held. So the
  \<^verbatim>\<open>UNIT\<close> returned is a function of \<^verbatim>\<open>FILE_TYPE\<close> alone: any other successful
  call, on any file of any file system, that returns the same \<^verbatim>\<open>FILE_TYPE\<close>
  returns the same \<^verbatim>\<open>UNIT\<close>.
\<close>

theorem read_attributes_overwrites_unit:
  fixes fs :: "('f, 'img) fsys" and fs' :: "('g, 'img2) fsys"
  assumes "read_attributes fs File = Inr atr"
  shows "(\<exists>parsed ft.
      tagged_attributes fs File = Inr parsed \<and>
      parsed ''FILE_TYPE'' = Some ft \<and>
      atr = parsed(''UNIT'' \<mapsto>
        (if ft \<in> {''interferograms'', ''wrapped'', ''.unw'', ''.int'', ''.flat''} then ''radian''
         else if ft \<in> {''timeseries'', ''dem'', ''.dem'', ''.hgt''} then ''m''
         else if ft = ''velocity'' then ''m/yr''
         else ''1''))) \<and>
    (read_attributes fs' File' = Inr atr' \<and> atr' ''FILE_TYPE'' = atr ''FILE_TYPE''
       \<longrightarrow> atr' ''UNIT'' = atr ''UNIT'')"
proof
  from assms obtain parsed where parsed: "tagged_attributes fs File = Inr parsed"
    and unit: "set_unit parsed = Inr atr"
    by (auto simp: read_attributes_def bind_eq_Inr split: if_splits)
  from set_unit_Inr [OF unit] obtain ft where
    "parsed ''FILE_TYPE'' = Some ft" "atr = parsed(''UNIT'' \<mapsto> unit_of ft)"
    by blast
  with parsed show "\<exists>parsed ft.
      tagged_attributes fs File = Inr parsed \<and>
      parsed ''FILE_TYPE'' = Some ft \<and>
      atr = parsed(''UNIT'' \<mapsto>
        (if ft \<in> {''interferograms'', ''wrapped'', ''.unw'', ''.int'', ''.flat''} then ''radian''
         else if ft \<in> {''timeseries'', ''dem'', ''.dem'', ''.hgt''} then ''m''
         else if ft = ''velocity'' then ''m/yr''
         else ''1''))"
    by (auto simp: unit_of_def)
  show "read_attributes fs' File' = Inr atr' \<and> atr' ''FILE_TYPE'' = atr ''FILE_TYPE''
       \<longrightarrow> atr' ''UNIT'' = atr ''UNIT''"
  proof
    assume other: "read_attributes fs' File' = Inr atr' \<and> atr' ''FILE_TYPE'' = atr ''FILE_TYPE''"
    from read_attributes_type_unit [OF assms] obtain ft
      where 1: "atr ''FILE_TYPE'' = Some ft" "atr ''UNIT'' = Some (unit_of ft)" by blast
    from other have "read_attributes fs' File' = Inr atr'" ..
    from read_attributes_type_unit [OF this] obtain ft'
      where 2: "atr' ''FILE_TYPE'' = Some ft'" "atr' ''UNIT'' = Some (unit_of ft')" by blast
    from 1 2 other show "atr' ''UNIT'' = atr ''UNIT''" by simp
  qed
qed

text \<open>
  The sidecar of the example holds \<^verbatim>\<open>UNIT dB\<close>, and the mapping parsed from it holds
  it still; the mapping returned holds \<^verbatim>\<open>UNIT radian\<close>, the entry of the table for
  \<^verbatim>\<open>.unw\<close>. With the sidecar replaced by one that holds \<^verbatim>\<open>UNIT furlong\<close> the
  unit returned is \<^verbatim>\<open>radian\<close> again.
\<close>

theorem read_attributes_overwrites_unit_witness:
  "dict_get (tagged_attributes example_fs ''a.unw'') ''UNIT'' = Inr (Some ''dB'') \<and>
   dict_get (tagged_attributes example_fs ''a.unw'') ''FILE_TYPE'' = Inr (Some ''.unw'') \<and>
   dict_get (read_attributes example_fs ''a.unw'') ''UNIT'' = Inr (Some ''radian'') \<and>
   dict_get (tagged_attributes (example_fs\<lparr>rsc := \<lambda>p. Inr [''UNIT'' \<mapsto> ''furlong'']\<rparr>) ''a.unw'')
     ''UNIT'' = Inr (Some ''furlong'') \<and>
   dict_get (read_attributes (example_fs\<lparr>rsc := \<lambda>p. Inr [''UNIT'' \<mapsto> ''furlong'']\<rparr>) ''a.unw'')
     ''UNIT'' = Inr (Some ''radian'')"
proof -
  let ?fs' = "example_fs\<lparr>rsc := \<lambda>p. Inr [''UNIT'' \<mapsto> ''furlong'']\<rparr>"
  let ?atr = "example_rsc(''PROCESSOR'' \<mapsto> ''roipac'', ''FILE_TYPE'' \<mapsto> ''.unw'',
            ''UNIT'' \<mapsto> ''radian'')"
  let ?atr' = "[''UNIT'' \<mapsto> ''furlong'', ''PROCESSOR'' \<mapsto> ''roipac'', ''FILE_TYPE'' \<mapsto> ''.unw'',
           ''UNIT'' \<mapsto> ''radian'']"
  have parsed: "tagged_attributes example_fs ''a.unw'' =
      Inr (example_rsc(''PROCESSOR'' \<mapsto> ''roipac'', ''FILE_TYPE'' \<mapsto> ''.unw''))"
    by (simp add: tagged_attributes_def example_fs_def path_defs read_roipac_rsc_def tag_def)
  have parsed': "tagged_attributes ?fs' ''a.unw'' =
      Inr [''UNIT'' \<mapsto> ''furlong'', ''PROCESSOR'' \<mapsto> ''roipac'', ''FILE_TYPE'' \<mapsto> ''.unw'']"
    by (simp add: tagged_attributes_def example_fs_def path_defs read_roipac_rsc_def tag_def)
  have other: "read_attributes ?fs' ''a.unw'' = Inr ?atr'"
    by (simp add: read_attributes_def tagged_attributes_def example_fs_def path_defs
        read_roipac_rsc_def tag_def set_unit_def getitem_def)
  from read_attributes_overwrites_unit
    [OF example_unw_attributes, where fs' = ?fs' and File' = "''a.unw''" and atr' = ?atr']
  have "(\<exists>p ft. tagged_attributes example_fs ''a.unw'' = Inr p \<and> p ''FILE_TYPE'' = Some ft \<and>
      ?atr = p(''UNIT'' \<mapsto>
        (if ft \<in> {''interferograms'', ''wrapped'', ''.unw'', ''.int'', ''.flat''} then ''radian''
         else if ft \<in> {''timeseries'', ''dem'', ''.dem'', ''.hgt''} then ''m''
         else if ft = ''velocity'' then ''m/yr''
         else ''1'')))"
    and "?atr' ''UNIT'' = ?atr ''UNIT''"
    by (simp_all add: other)
  then have "?atr ''UNIT'' = Some ''radian''" and "?atr' ''UNIT'' = Some ''radian''"
    by (auto simp: parsed)
  then show ?thesis
    by (simp add: parsed parsed' other example_unw_attributes dict_get_def example_rsc_def)
qed



section \<open>Arrays: \<^verbatim>\<open>reshape\<close> and slices\<close>

lemma length_rows_of [simp]: "length (rows_of r c xs) = r"
  by (simp add: rows_of_def)

lemma rows_of_row_length:
  assumes "r * c \<le> length xs" and "row \<in> set (rows_of r c xs)"
  shows "length row = c"
proof -
  from assms(2) obtain i where i: "i < r" and row: "row = take c (drop (i * c) xs)"
    by (auto simp: rows_of_def)
  from i have "Suc i * c \<le> r * c" by (intro mult_le_mono1) simp
  with assms(1) have "i * c + c \<le> length xs" by simp
  with row show ?thesis by simp
qed

lemma rows_of_map: "rows_of r c (map f xs) = map (map f) (rows_of r c xs)"
  by (simp add: rows_of_def take_map drop_map)

lemma concat_rows_of_take: "concat (rows_of r c xs) = take (r * c) xs"
proof (induction r)
  case 0
  then show ?case by (simp add: rows_of_def)
next
  case (Suc r)
  have "rows_of (Suc r) c xs = rows_of r c xs @ [take c (drop (r * c) xs)]"
    by (simp add: rows_of_def)
  then have "concat (rows_of (Suc r) c xs) = take (r * c) xs @ take c (drop (r * c) xs)"
    using Suc by simp
  also have "\<dots> = take (r * c + c) xs"
    by (simp add: take_add)
  finally show ?case by (simp add: add.commute)
qed

lemma concat_rows_of: "length xs = r * c \<Longrightarrow> concat (rows_of r c xs) = xs"
  by (simp add: concat_rows_of_take)

text \<open>A successful \<^verbatim>\<open>reshape\<close> lays out exactly the items it was given.\<close>

lemma reshape_concat:
  assumes "reshape xs r c = Inr m"
  shows "concat m = xs"
proof -
  have *: "\<And>a b. a * b = length xs \<Longrightarrow> concat (rows_of a b xs) = xs"
    by (simp add: concat_rows_of)
  consider (rneg) "r < 0" "0 \<le> c" | (cneg) "0 \<le> r" "c < 0" | (pos) "0 \<le> r" "0 \<le> c"
    using assms by (cases "r < 0"; cases "c < 0") (simp_all add: reshape_def)
  then show ?thesis
  proof cases
    case rneg
    with assms have c: "c \<noteq> 0" "int (length xs) mod c = 0"
      and m: "m = rows_of (nat (int (length xs) div c)) (nat c) xs"
      by (auto simp: reshape_def Let_def split: if_splits)
    from c(2) have "c dvd int (length xs)" by (simp add: mod_eq_0_iff_dvd)
    then have "int (length xs) div c * c = int (length xs)" by simp
    moreover have "0 \<le> int (length xs) div c"
      using rneg c(1) by (simp add: pos_imp_zdiv_nonneg_iff)
    ultimately have "nat (int (length xs) div c) * nat c = length xs"
      by (metis nat_int nat_mult_distrib)
    with m show ?thesis by (simp add: *)
  next
    case cneg
    with assms have r: "r \<noteq> 0" "int (length xs) mod r = 0"
      and m: "m = rows_of (nat r) (nat (int (length xs) div r)) xs"
      by (auto simp: reshape_def Let_def split: if_splits)
    from r(2) have "r dvd int (length xs)" by (simp add: mod_eq_0_iff_dvd)
    then have "r * (int (length xs) div r) = int (length xs)" by simp
    then have "nat r * nat (int (length xs) div r) = length xs"
      using cneg by (metis nat_int nat_mult_distrib)
    with m show ?thesis by (simp add: *)
  next
    case pos
    with assms have rc: "r * c = int (length xs)" and m: "m = rows_of (nat r) (nat c) xs"
      by (auto simp: reshape_def Let_def split: if_splits)
    from rc pos have "nat r * nat c = length xs"
      by (metis nat_int nat_mult_distrib)
    with m show ?thesis by (simp add: *)
  qed
qed

lemma reshape_map:
  "reshape (map f xs) r c = (case reshape xs r c of Inl e \<Rightarrow> Inl e | Inr m \<Rightarrow> Inr (map (map f) m))"
  by (simp add: reshape_def Let_def rows_of_map [symmetric])

lemma reshape_again:
  assumes "reshape xs r c = Inr m"
  shows "reshape (concat (map (map f) m)) r c = Inr (map (map f) m)"
proof -
  have "concat (map (map f) m) = map f (concat m)"
    by (simp add: map_concat)
  also have "\<dots> = map f xs"
    using reshape_concat [OF assms] by simp
  finally show ?thesis
    using assms by (simp add: reshape_map)
qed

lemma reshape_shape:
  assumes "reshape xs r c = Inr m" and "0 \<le> r" and "0 \<le> c"
  shows "length m = nat r" and "\<forall>row \<in> set m. length row = nat c"
proof -
  from assms have rc: "r * c = int (length xs)" and m: "m = rows_of (nat r) (nat c) xs"
    by (auto simp: reshape_def Let_def split: if_splits)
  from m show "length m = nat r" by simp
  from rc assms(2,3) have "nat r * nat c = length xs"
    by (metis nat_int nat_mult_distrib)
  then show "\<forall>row \<in> set m. length row = nat c"
    using m rows_of_row_length [of "nat r" "nat c" xs] by simp
qed

lemma reshape_nonneg:
  assumes "0 \<le> r" and "0 \<le> c"
  shows "reshape xs r c =
    (if r * c = int (length xs) then Inr (rows_of (nat r) (nat c) xs) else Inl ValueError)"
  using assms by (simp add: reshape_def)

lemma py_slice_all:
  assumes "0 \<le> n" and "length xs \<le> nat n"
  shows "py_slice 0 n xs = xs"
  using assms by (simp add: py_slice_def slice_index_def)

lemma slice2_all:
  assumes "0 \<le> l" and "0 \<le> w" and "length m \<le> nat l" and "\<forall>row \<in> set m. length row \<le> nat w"
  shows "slice2 m 0 l 0 w = m"
proof -
  have "py_slice 0 l m = m"
    using assms(1,3) by (rule py_slice_all)
  moreover have "map (py_slice 0 w) m = m"
    using assms(2,4) by (simp add: map_idI py_slice_all)
  ultimately show ?thesis by (simp add: slice2_def)
qed

lemma crop_reshaped:
  assumes "reshape xs l w = Inr m" and "0 \<le> l" and "0 \<le> w"
  shows "crop (Some (0, 0, w, l)) m = m"
  using reshape_shape [OF assms] assms(2,3) by (simp add: crop_def slice2_all)



section \<open>The interleaved-complex decoder\<close>

lemma example_int_attributes:
  "read_attributes example_fs ''i.int'' =
     Inr (example_rsc(''PROCESSOR'' \<mapsto> ''roipac'', ''FILE_TYPE'' \<mapsto> ''.int'',
            ''UNIT'' \<mapsto> ''radian''))"
  by (simp add: read_attributes_def tagged_attributes_def example_fs_def path_defs
      read_roipac_rsc_def tag_def set_unit_def getitem_def)

lemma float_of_decimal_examples:
  "float_of_decimal ''1'' = Some 1" "float_of_decimal ''2'' = Some 2"
  by (simp_all add: float_of_decimal_def digit_def)

lemma example_int_attr:
  assumes "atr ''WIDTH'' = Some ''2''" and "atr ''FILE_LENGTH'' = Some ''1''"
  shows "int_attr example_lib atr ''WIDTH'' = Inr 2"
    and "int_attr example_lib atr ''FILE_LENGTH'' = Inr 1"
    and "float_attr example_lib atr ''WIDTH'' = Inr 2"
    and "float_attr example_lib atr ''FILE_LENGTH'' = Inr 1"
  using assms
  by (simp_all add: int_attr_def float_attr_def getitem_def example_lib_def
      float_of_decimal_examples py_int_def)

text \<open>
  C6. \<^verbatim>\<open>read_complex_float32\<close> returns exactly when the attributes can be read,
  \<^verbatim>\<open>WIDTH\<close> and \<^verbatim>\<open>FILE_LENGTH\<close> are numbers and the file's complex samples
  decode into a plane \<open>data\<close> of the declared shape. With \<^verbatim>\<open>real_imag\<close> 0 it then
  returns the amplitude plane that holds \<^verbatim>\<open>hypot(real, imag)\<close> and the phase plane
  that holds \<^verbatim>\<open>arctan2(imag, real)\<close> of the sample at the same place of \<open>data\<close>, and
  with any other \<^verbatim>\<open>real_imag\<close> it returns the complex plane itself.
\<close>

theorem read_complex_float32_samples:
  "read_complex_float32 lb fs File real_imag = Inr r \<longleftrightarrow>
   (\<exists>atr width length data.
      read_attributes fs File = Inr atr \<and>
      int_attr lb atr ''WIDTH'' = Inr width \<and>
      int_attr lb atr ''FILE_LENGTH'' = Inr length \<and>
      reshape (fromfile (complex64s fs File) (length * width)) length width = Inr data \<and>
      r = (if real_imag = 0 then
             Amplitude_Phase
               (map (map (\<lambda>(re, im). Float32 (np_hypot lb re im))) data)
               (map (map (\<lambda>(re, im). Float32 (np_arctan2 lb im re))) data)
               atr
           else Complex_Data (map (map (\<lambda>(re, im). Complex64 re im)) data) atr))"
proof -
  have run: "read_complex_float32 lb fs File real_imag =
      Inr (if real_imag = 0 then
           Amplitude_Phase
             (map (map (\<lambda>(re, im). Float32 (np_hypot lb re im))) data)
             (map (map (\<lambda>(re, im). Float32 (np_arctan2 lb im re))) data)
             atr
         else Complex_Data (map (map (\<lambda>(re, im). Complex64 re im)) data) atr)"
    if atr: "read_attributes fs File = Inr atr"
      and w: "int_attr lb atr ''WIDTH'' = Inr width"
      and l: "int_attr lb atr ''FILE_LENGTH'' = Inr length"
      and data: "reshape (fromfile (complex64s fs File) (length * width)) length width = Inr data"
    for atr width length data
    by (simp add: read_complex_float32_def atr w l data reshape_again [OF data])
  show ?thesis
  proof
    assume returned: "read_complex_float32 lb fs File real_imag = Inr r"
    then obtain atr width length data where
      atr: "read_attributes fs File = Inr atr"
      and w: "int_attr lb atr ''WIDTH'' = Inr width"
      and l: "int_attr lb atr ''FILE_LENGTH'' = Inr length"
      and data: "reshape (fromfile (complex64s fs File) (length * width)) length width = Inr data"
      by (auto simp: read_complex_float32_def bind_eq_Inr)
    from run [OF this] returned atr w l data
    show "\<exists>atr width length data.
      read_attributes fs File = Inr atr \<and>
      int_attr lb atr ''WIDTH'' = Inr width \<and>
      int_attr lb atr ''FILE_LENGTH'' = Inr length \<and>
      reshape (fromfile (complex64s fs File) (length * width)) length width = Inr data \<and>
      r = (if real_imag = 0 then
             Amplitude_Phase
               (map (map (\<lambda>(re, im). Float32 (np_hypot lb re im))) data)
               (map (map (\<lambda>(re, im). Float32 (np_arctan2 lb im re))) data)
               atr
           else Complex_Data (map (map (\<lambda>(re, im). Complex64 re im)) data) atr)"
      by auto
  next
    assume "\<exists>atr width length data.
      read_attributes fs File = Inr atr \<and>
      int_attr lb atr ''WIDTH'' = Inr width \<and>
      int_attr lb atr ''FILE_LENGTH'' = Inr length \<and>
      reshape (fromfile (complex64s fs File) (length * width)) length width = Inr data \<and>
      r = (if real_imag = 0 then
             Amplitude_Phase
               (map (map (\<lambda>(re, im). Float32 (np_hypot lb re im))) data)
               (map (map (\<lambda>(re, im). Float32 (np_arctan2 lb im re))) data)
               atr
           else Complex_Data (map (map (\<lambda>(re, im). Complex64 re im)) data) atr)"
    then obtain atr width length data where
      atr: "read_attributes fs File = Inr atr"
      and w: "int_attr lb atr ''WIDTH'' = Inr width"
      and l: "int_attr lb atr ''FILE_LENGTH'' = Inr length"
      and data: "reshape (fromfile (complex64s fs File) (length * width)) length width = Inr data"
      and r: "r = (if real_imag = 0 then
             Amplitude_Phase
               (map (map (\<lambda>(re, im). Float32 (np_hypot lb re im))) data)
               (map (map (\<lambda>(re, im). Float32 (np_arctan2 lb im re))) data)
               atr
           else Complex_Data (map (map (\<lambda>(re, im). Complex64 re im)) data) atr)"
      by blast
    from run [OF atr w l data] r
    show "read_complex_float32 lb fs File real_imag = Inr r" by simp
  qed
qed

text \<open>
  The example of the specification: samples \<open>3 + 4j\<close> decode to the amplitude 5 and the
  phase \<^verbatim>\<open>atan2(4, 3)\<close> with \<^verbatim>\<open>real_imag\<close> 0, and are returned as they are with
  \<^verbatim>\<open>real_imag\<close> 1.
\<close>

theorem read_complex_float32_samples_witness:
  "read_complex_float32 example_lib example_fs ''i.int'' 0 =
     Inr (Amplitude_Phase
            [[Float32 5, Float32 5]]
            [[Float32 (Arg (Complex 3 4)), Float32 (Arg (Complex 3 4))]]
            (example_rsc(''PROCESSOR'' \<mapsto> ''roipac'', ''FILE_TYPE'' \<mapsto> ''.int'',
               ''UNIT'' \<mapsto> ''radian''))) \<and>
   read_complex_float32 example_lib example_fs ''i.int'' 1 =
     Inr (Complex_Data
            [[Complex64 3 4, Complex64 3 4]]
            (example_rsc(''PROCESSOR'' \<mapsto> ''roipac'', ''FILE_TYPE'' \<mapsto> ''.int'',
               ''UNIT'' \<mapsto> ''radian'')))"
proof -
  let ?atr = "example_rsc(''PROCESSOR'' \<mapsto> ''roipac'', ''FILE_TYPE'' \<mapsto> ''.int'',
               ''UNIT'' \<mapsto> ''radian'')"
  have w: "int_attr example_lib ?atr ''WIDTH'' = Inr 2"
    and l: "int_attr example_lib ?atr ''FILE_LENGTH'' = Inr 1"
    by (rule example_int_attr; simp add: example_rsc_def)+
  have five: "sqrt 25 = (5::real)"
    by (rule real_sqrt_unique) simp_all
  have data: "reshape (fromfile (complex64s example_fs ''i.int'') (1 * 2)) 1 2 =
      Inr [[(3, 4), (3, 4)]]"
    by (simp add: example_fs_def fromfile_def reshape_def rows_of_def)
  have h: "np_hypot example_lib 3 4 = 5"
    by (simp add: example_lib_def five)
  have p: "np_arctan2 example_lib 4 3 = Arg (Complex 3 4)"
    by (simp add: example_lib_def)
  have decoded: "\<exists>atr width length data.
      read_attributes example_fs ''i.int'' = Inr atr \<and>
      int_attr example_lib atr ''WIDTH'' = Inr width \<and>
      int_attr example_lib atr ''FILE_LENGTH'' = Inr length \<and>
      reshape (fromfile (complex64s example_fs ''i.int'') (length * width)) length width
        = Inr data \<and>
      r = (if real_imag = 0 then
             Amplitude_Phase
               (map (map (\<lambda>(re, im). Float32 (np_hypot example_lib re im))) data)
               (map (map (\<lambda>(re, im). Float32 (np_arctan2 example_lib im re))) data)
               atr
           else Complex_Data (map (map (\<lambda>(re, im). Complex64 re im)) data) atr)"
    if "r = (if real_imag = 0 then
             Amplitude_Phase
               (map (map (\<lambda>(re, im). Float32 (np_hypot example_lib re im))) [[(3, 4), (3, 4)]])
               (map (map (\<lambda>(re, im). Float32 (np_arctan2 example_lib im re))) [[(3, 4), (3, 4)]])
               ?atr
           else Complex_Data (map (map (\<lambda>(re, im). Complex64 re im)) [[(3, 4), (3, 4)]]) ?atr)"
    for r and real_imag :: int
    using example_int_attributes w l data that by blast
  have "read_complex_float32 example_lib example_fs ''i.int'' 0 =
     Inr (Amplitude_Phase [[Float32 5, Float32 5]]
            [[Float32 (Arg (Complex 3 4)), Float32 (Arg (Complex 3 4))]] ?atr)"
    by (rule read_complex_float32_samples [THEN iffD2], rule decoded) (simp add: h p)
  moreover have "read_complex_float32 example_lib example_fs ''i.int'' 1 =
     Inr (Complex_Data [[Complex64 3 4, Complex64 3 4]] ?atr)"
    by (rule read_complex_float32_samples [THEN iffD2], rule decoded) simp
  ultimately show ?thesis by simp
qed



section \<open>The windowed decoders\<close>

lemma read_attributes_float32s [simp]:
  "read_attributes (fs\<lparr>float32s := g\<rparr>) File = read_attributes fs File"
  by (simp add: read_attributes_def tagged_attributes_def read_roipac_rsc_def
      read_isce_xml_def read_gamma_par_def Let_def cong: if_cong)

lemma read_attributes_int16s [simp]:
  "read_attributes (fs\<lparr>int16s := g\<rparr>) File = read_attributes fs File"
  by (simp add: read_attributes_def tagged_attributes_def read_roipac_rsc_def
      read_isce_xml_def read_gamma_par_def Let_def cong: if_cong)

lemma fromfile_prefix:
  assumes "0 \<le> n" and "take (nat n) xs = take (nat n) ys"
  shows "fromfile xs n = fromfile ys n"
  using assms by (simp add: fromfile_def)

lemma fromfile_map: "fromfile (map f xs) n = map f (fromfile xs n)"
  by (simp add: fromfile_def take_map)

lemma rows_of_take:
  assumes "r * c \<le> n"
  shows "rows_of r c (take n xs) = rows_of r c xs"
proof -
  have "take c (drop (i * c) (take n xs)) = take c (drop (i * c) xs)" if "i < r" for i
  proof -
    from that have "Suc i * c \<le> r * c" by (intro mult_le_mono1) simp
    with assms have "c \<le> n - i * c" by simp
    then show ?thesis by (simp add: drop_take min_def)
  qed
  then show ?thesis by (simp add: rows_of_def)
qed

lemma example_samples:
  "float32s example_fs p = [1, 2, 3, 4]"
  "int16s example_fs p = [1, 2, 3, 4]"
  "complex64s example_fs p = [(3, 4), (3, 4)]"
  by (simp_all add: example_fs_def)

lemma example_unw_int_attr:
  "int_attr example_lib
     (example_rsc(''PROCESSOR'' \<mapsto> ''roipac'', ''FILE_TYPE'' \<mapsto> ''.unw'',
        ''UNIT'' \<mapsto> ''radian'')) ''WIDTH'' = Inr 2"
  "int_attr example_lib
     (example_rsc(''PROCESSOR'' \<mapsto> ''roipac'', ''FILE_TYPE'' \<mapsto> ''.unw'',
        ''UNIT'' \<mapsto> ''radian'')) ''FILE_LENGTH'' = Inr 1"
  by (rule example_int_attr; simp add: example_rsc_def)+

text \<open>
  C10. \<^verbatim>\<open>read_float32\<close> and \<^verbatim>\<open>read_complex_int16\<close>, called with a window
  \<open>(x0, y0, x1, y1)\<close> on a file whose sidecar declares the width \<open>width\<close>, depend on
  the first \<open>y1 * 2 * width\<close> items of the file only: with the items of the file replaced
  by any others that agree with them on that prefix, each decoder returns what it
  returned before.
\<close>

theorem decoders_read_prefix_only:
  assumes "read_attributes fs File = Inr atr"
    and "int_attr lb atr ''WIDTH'' = Inr width"
    and "0 \<le> width" and "0 \<le> y1"
    and "take (nat (y1 * 2 * width)) floats = take (nat (y1 * 2 * width)) (float32s fs File)"
    and "take (nat (y1 * 2 * width)) ints = take (nat (y1 * 2 * width)) (int16s fs File)"
  shows "read_float32 lb (fs\<lparr>float32s := (float32s fs)(File := floats)\<rparr>) File
           (Some (x0, y0, x1, y1)) =
         read_float32 lb fs File (Some (x0, y0, x1, y1)) \<and>
         read_complex_int16 lb (fs\<lparr>int16s := (int16s fs)(File := ints)\<rparr>) File
           (Some (x0, y0, x1, y1)) =
         read_complex_int16 lb fs File (Some (x0, y0, x1, y1))"
proof -
  have n: "0 \<le> y1 * 2 * width"
    using assms(3,4) by simp
  have "fromfile floats (y1 * 2 * width) = fromfile (float32s fs File) (y1 * 2 * width)"
    using n assms(5) by (rule fromfile_prefix)
  then have f: "fromfile (map Float32 floats) (y1 * 2 * width) =
      fromfile (map Float32 (float32s fs File)) (y1 * 2 * width)"
    by (simp add: fromfile_map)
  have i: "fromfile ints (y1 * 2 * width) = fromfile (int16s fs File) (y1 * 2 * width)"
    using n assms(6) by (rule fromfile_prefix)
  have "read_float32 lb (fs\<lparr>float32s := (float32s fs)(File := floats)\<rparr>) File
           (Some (x0, y0, x1, y1)) =
         read_float32 lb fs File (Some (x0, y0, x1, y1))"
    by (simp add: read_float32_def assms(1,2) f)
  moreover have "read_complex_int16 lb (fs\<lparr>int16s := (int16s fs)(File := ints)\<rparr>) File
           (Some (x0, y0, x1, y1)) =
         read_complex_int16 lb fs File (Some (x0, y0, x1, y1))"
    by (simp add: read_complex_int16_def assms(1,2) i)
  ultimately show ?thesis ..
qed

theorem decoders_read_prefix_only_witness:
  "read_float32 example_lib
     (example_fs\<lparr>float32s := (float32s example_fs)(''a.unw'' := [1, 2, 3, 4, 9, 9])\<rparr>)
     ''a.unw'' (Some (0, 0, 1, 1)) =
   read_float32 example_lib example_fs ''a.unw'' (Some (0, 0, 1, 1)) \<and>
   read_complex_int16 example_lib
     (example_fs\<lparr>int16s := (int16s example_fs)(''a.unw'' := [1, 2, 3, 4, 7])\<rparr>)
     ''a.unw'' (Some (0, 0, 1, 1)) =
   read_complex_int16 example_lib example_fs ''a.unw'' (Some (0, 0, 1, 1))"
proof (rule decoders_read_prefix_only [OF example_unw_attributes example_unw_int_attr(1)])
  show "(0::int) \<le> 2" and "(0::int) \<le> 1" by simp_all
  show "take (nat (1 * 2 * 2)) [1, 2, 3, 4, 9, 9] =
      take (nat (1 * 2 * 2)) (float32s example_fs ''a.unw'')"
    by (simp add: example_samples)
  show "take (nat (1 * 2 * 2)) [1, 2, 3, 4, 7] =
      take (nat (1 * 2 * 2)) (int16s example_fs ''a.unw'')"
    by (simp add: example_samples)
qed

text \<open>
  C3, as the code has it. \<^verbatim>\<open>read_float32\<close> checks no window. For a file with
  readable attributes, a declared width that is not negative and a window whose lower
  bound \<open>y1\<close> is not negative, the call fails exactly when the file holds fewer than
  \<open>y1 * 2 * width\<close> samples, with the ValueError of \<^verbatim>\<open>reshape\<close>; otherwise it returns
  the two slices of the rows read, with the bounds of each slice clipped to the row of
  \<open>2 * width\<close> samples. A window with \<open>x1 > WIDTH\<close> is not refused.
\<close>

theorem read_float32_window_unchecked:
  assumes "read_attributes fs File = Inr atr"
    and "int_attr lb atr ''WIDTH'' = Inr width"
    and "int_attr lb atr ''FILE_LENGTH'' = Inr file_length"
    and "0 \<le> width" and "0 \<le> y1"
  shows "read_float32 lb fs File (Some (x0, y0, x1, y1)) =
    (if y1 * 2 * width \<le> int (length (float32s fs File)) then
       Inr (slice2 (rows_of (nat y1) (nat (2 * width)) (map Float32 (float32s fs File)))
              y0 y1 x0 x1,
            slice2 (rows_of (nat y1) (nat (2 * width)) (map Float32 (float32s fs File)))
              y0 y1 (width + x0) (width + x1),
            atr)
     else Inl ValueError)"
proof -
  let ?n = "y1 * 2 * width"
  let ?xs = "map Float32 (float32s fs File)"
  have n: "0 \<le> ?n" using assms(4,5) by simp
  have nn: "nat y1 * nat (2 * width) = nat ?n"
    using assms(4,5) by (simp add: nat_mult_distrib mult.assoc)
  have rows: "rows_of (nat y1) (nat (2 * width)) (fromfile ?xs ?n) =
      rows_of (nat y1) (nat (2 * width)) ?xs"
    using n nn by (simp add: fromfile_def rows_of_take)
  have "reshape (fromfile ?xs ?n) y1 (2 * width) =
      (if ?n \<le> int (length (float32s fs File))
       then Inr (rows_of (nat y1) (nat (2 * width)) ?xs) else Inl ValueError)"
  proof (cases "?n \<le> int (length (float32s fs File))")
    case True
    with n have "int (length (fromfile ?xs ?n)) = y1 * (2 * width)"
      by (simp add: fromfile_def mult.assoc)
    with True rows show ?thesis
      using assms(4,5) by (simp add: reshape_nonneg)
  next
    case False
    with n have "int (length (fromfile ?xs ?n)) \<noteq> y1 * (2 * width)"
      by (simp add: fromfile_def mult.assoc)
    with False show ?thesis
      using assms(4,5) by (simp add: reshape_nonneg)
  qed
  then show ?thesis
    by (simp add: read_float32_def assms(1,2,3))
qed

text \<open>
  On the example file of width 2 and length 1, which holds 4 samples, the window
  \<open>(0, 0, 2, 2)\<close> reaches below the last line: 8 samples are needed, and the call fails.
\<close>

theorem read_float32_window_unchecked_witness:
  "read_float32 example_lib example_fs ''a.unw'' (Some (0, 0, 2, 2)) = Inl ValueError"
  using read_float32_window_unchecked
    [OF example_unw_attributes example_unw_int_attr, of 2 0 0 2]
  by (simp add: example_samples)

text \<open>
  The claim as stated fails on the same file: its width is 2, the window \<open>(0, 0, 3, 1)\<close>
  has \<open>x1 = 3\<close>, and the call returns two arrays, the first of them three samples
  wide.
\<close>

theorem read_float32_accepts_wide_window:
  "int_attr example_lib
     (example_rsc(''PROCESSOR'' \<mapsto> ''roipac'', ''FILE_TYPE'' \<mapsto> ''.unw'',
        ''UNIT'' \<mapsto> ''radian'')) ''WIDTH'' = Inr 2 \<and>
   read_float32 example_lib example_fs ''a.unw'' (Some (0, 0, 3, 1)) =
     Inr ([[Float32 1, Float32 2, Float32 3]], [[Float32 3, Float32 4]],
          example_rsc(''PROCESSOR'' \<mapsto> ''roipac'', ''FILE_TYPE'' \<mapsto> ''.unw'',
            ''UNIT'' \<mapsto> ''radian''))"
  by (simp add: read_float32_def example_unw_attributes example_unw_int_attr
      example_samples fromfile_def reshape_def rows_of_def slice2_def py_slice_def
      slice_index_def)



section \<open>The number of planes \<^verbatim>\<open>read\<close> returns\<close>

lemma tag_Inr: "tag p e a = Inr atr \<longleftrightarrow> atr = a(''PROCESSOR'' \<mapsto> p, ''FILE_TYPE'' \<mapsto> e)"
  by (auto simp: tag_def)

lemma ref_date_default_Inr:
  assumes "ref_date_default h k0 atr = Inr a"
  shows "a = atr \<or> (\<exists>d. a = atr(''ref_date'' \<mapsto> d))"
proof (cases "k0 = ''timeseries'' \<and> atr ''ref_date'' = None")
  case True
  with assms obtain ks where "(case sort ks of [] \<Rightarrow> Inl IndexError
      | d # _ \<Rightarrow> Inr (atr(''ref_date'' \<mapsto> d))) = Inr a"
    by (auto simp: ref_date_default_def bind_eq_Inr)
  then show ?thesis by (cases "sort ks") auto
next
  case False
  with assms show ?thesis by (auto simp: ref_date_default_def)
qed

lemma h5_attributes_Inr:
  assumes "h5_attributes h = Inr a"
  shows "a ''PROCESSOR'' = Some ''pysar'' \<and>
    (\<exists>k0 ks. first_key (map fst h) = k0 # ks \<and> a ''FILE_TYPE'' = Some k0)"
proof (cases "first_key (map fst h)")
  case Nil
  with assms show ?thesis by (simp add: h5_attributes_def)
next
  case (Cons k0 ks)
  with assms obtain attrs where
    "ref_date_default h k0 (attrs(''PROCESSOR'' \<mapsto> ''pysar'', ''FILE_TYPE'' \<mapsto> k0)) = Inr a"
    by (auto simp: h5_attributes_def bind_eq_Inr)
  from ref_date_default_Inr [OF this] Cons show ?thesis by auto
qed

lemma h5_attributes_processor:
  assumes "h5_attributes h = Inr a"
  shows "a ''PROCESSOR'' = Some ''pysar''"
  using h5_attributes_Inr [OF assms] by simp

lemma tagged_attributes_processor:
  assumes "tagged_attributes fs File = Inr a"
  shows "(file_ext File \<in> {''.h5'', ''.he5''} \<and> a ''PROCESSOR'' = Some ''pysar'') \<or>
         (file_ext File \<notin> {''.h5'', ''.he5''} \<and>
          a ''PROCESSOR'' \<in> {Some ''roipac'', Some ''isce'', Some ''gamma''})"
proof (cases "file_ext File \<in> {''.h5'', ''.he5''}")
  case True
  with assms have "\<exists>h. h5 fs File = Inr h \<and> h5_attributes h = Inr a"
    by (auto simp: tagged_attributes_def bind_eq_Inr)
  then have "a ''PROCESSOR'' = Some ''pysar''"
    by (auto dest: h5_attributes_processor)
  with True show ?thesis by simp
next
  case False
  with assms obtain b p where "p \<in> {''roipac'', ''isce'', ''gamma''}"
    and "tag p (file_ext File) b = Inr a"
    by (auto simp: tagged_attributes_def Let_def bind_eq_Inr split: if_splits)
  with False show ?thesis by (auto simp: tag_Inr)
qed

lemma read_attributes_processor:
  assumes "read_attributes fs File = Inr atr"
  shows "(file_ext File \<in> {''.h5'', ''.he5''} \<and> atr ''PROCESSOR'' = Some ''pysar'') \<or>
         (file_ext File \<notin> {''.h5'', ''.he5''} \<and>
          atr ''PROCESSOR'' \<in> {Some ''roipac'', Some ''isce'', Some ''gamma''})"
proof -
  from assms obtain a where a: "set_unit a = Inr atr" and t: "tagged_attributes fs File = Inr a"
    by (auto simp: read_attributes_def bind_eq_Inr split: if_splits)
  from set_unit_Inr [OF a] have "atr ''PROCESSOR'' = a ''PROCESSOR''" by auto
  with tagged_attributes_processor [OF t] show ?thesis by simp
qed

lemma unpack3_eq_Inr:
  "unpack3 m = Inr (a, p, t) \<longleftrightarrow> m = Inr (Amplitude_Phase a p t)"
proof (cases m)
  case (Inl e)
  then show ?thesis by (simp add: unpack3_def)
next
  case (Inr r)
  then show ?thesis by (cases r) (auto simp: unpack3_def)
qed

lemma read_hdf5_planes: "read_hdf5 fs File atr bx epoch = Inr r \<Longrightarrow> planes r = 1"
  by (auto simp: read_hdf5_def bind_eq_Inr)

lemma read_image_planes: "read_image lb fs File bx = Inr r \<Longrightarrow> planes r = 1"
  by (auto simp: read_image_def bind_eq_Inr)

lemma read_isce_planes:
  assumes "read_isce lb fs File ext bx = Inr r"
  shows "planes r = 1 \<and> ext \<in> {''.flat'', ''.cor'', ''.slc''}"
proof -
  from assms obtain data atr where "r = One_Plane (Array (crop bx data)) atr"
    by (auto simp: read_isce_def bind_eq_Inr)
  moreover from assms have "ext \<in> {''.flat'', ''.cor'', ''.slc''}"
    by (auto simp: read_isce_def split: if_splits)
  ultimately show ?thesis by simp
qed

lemma read_roipac_planes:
  assumes "read_roipac lb fs File ext bx = Inr r"
  shows "planes r = (if ext = ''.trans'' then 2 else 1)"
  using assms
  by (auto simp: read_roipac_def bind_eq_Inr split: if_splits)

lemma read_branch:
  assumes "read lb fs File bx epoch = Inr r"
  obtains atr processor atr' where
    "read_attributes fs File = Inr atr"
    and "atr ''PROCESSOR'' = Some processor"
    and "update_attributes lb atr bx = Inr atr'"
    and "(if file_ext File \<in> set [''.h5'', ''.he5''] then read_hdf5 fs File atr' bx epoch
        else if file_ext File \<in> set [''.jpeg'', ''.jpg'', ''.png'', ''.ras'', ''.bmp''] then
          read_image lb fs File bx
        else if processor = ''isce'' then read_isce lb fs File (file_ext File) bx
        else if processor \<in> set [''roipac'', ''gamma''] then
          read_roipac lb fs File (file_ext File) bx
        else Inr Zero) = Inr r"
  using assms unfolding read_def Let_def bind_eq_Inr getitem_eq_Inr by blast

lemma file_ext_examples:
  "file_ext ''a.unw'' = ''.unw''" "file_ext ''g.trans'' = ''.trans''"
  "file_ext ''v.h5'' = ''.h5''" "file_ext ''ts.h5'' = ''.h5''"
  by (simp_all add: path_defs)

lemma example_trans_attributes:
  "read_attributes example_fs ''g.trans'' =
     Inr (example_rsc(''PROCESSOR'' \<mapsto> ''roipac'', ''FILE_TYPE'' \<mapsto> ''.trans'',
            ''UNIT'' \<mapsto> ''1''))"
  by (simp add: read_attributes_def tagged_attributes_def example_fs_def path_defs
      read_roipac_rsc_def tag_def set_unit_def getitem_def)

lemma example_read_unw:
  "read example_lib example_fs ''a.unw'' None [] =
     Inr (One_Plane (Array [[Float32 3, Float32 4]])
            (example_rsc(''PROCESSOR'' \<mapsto> ''roipac'', ''FILE_TYPE'' \<mapsto> ''.unw'',
               ''UNIT'' \<mapsto> ''radian'')))"
  by (simp add: read_def file_ext_examples example_unw_attributes getitem_def
      update_attributes_def read_roipac_def read_float32_def example_unw_int_attr
      example_samples fromfile_def reshape_def rows_of_def slice2_def py_slice_def
      slice_index_def)

lemma example_read_trans:
  "read example_lib example_fs ''g.trans'' None [] =
     Inr (Two_Planes (Array [[Float32 1, Float32 2]]) (Array [[Float32 3, Float32 4]])
            (example_rsc(''PROCESSOR'' \<mapsto> ''roipac'', ''FILE_TYPE'' \<mapsto> ''.trans'',
               ''UNIT'' \<mapsto> ''1'')))"
proof -
  have w: "int_attr example_lib
     (example_rsc(''PROCESSOR'' \<mapsto> ''roipac'', ''FILE_TYPE'' \<mapsto> ''.trans'',
        ''UNIT'' \<mapsto> ''1'')) ''WIDTH'' = Inr 2"
    and l: "int_attr example_lib
     (example_rsc(''PROCESSOR'' \<mapsto> ''roipac'', ''FILE_TYPE'' \<mapsto> ''.trans'',
        ''UNIT'' \<mapsto> ''1'')) ''FILE_LENGTH'' = Inr 1"
    by (rule example_int_attr; simp add: example_rsc_def)+
  show ?thesis
    by (simp add: read_def file_ext_examples example_trans_attributes getitem_def
      update_attributes_def read_roipac_def read_float32_def w l
      example_samples fromfile_def reshape_def rows_of_def slice2_def py_slice_def
      slice_index_def)
qed

text \<open>
  C2, as the code has it. Whenever \<^verbatim>\<open>read\<close> returns, it returns two data planes if
  the extension of the file is \<^verbatim>\<open>.trans\<close> and one data plane otherwise: of the two
  planes an amplitude and phase decoder produces, \<^verbatim>\<open>read\<close> passes one on.
\<close>

theorem read_two_planes_iff_trans:
  assumes "read lb fs File bx epoch = Inr r"
  shows "planes r = (if file_ext File = ''.trans'' then 2 else 1)"
proof -
  from assms obtain atr processor atr' where
    atr: "read_attributes fs File = Inr atr"
    and p: "atr ''PROCESSOR'' = Some processor"
    and branch:
      "(if file_ext File \<in> set [''.h5'', ''.he5''] then read_hdf5 fs File atr' bx epoch
        else if file_ext File \<in> set [''.jpeg'', ''.jpg'', ''.png'', ''.ras'', ''.bmp''] then
          read_image lb fs File bx
        else if processor = ''isce'' then read_isce lb fs File (file_ext File) bx
        else if processor \<in> set [''roipac'', ''gamma''] then
          read_roipac lb fs File (file_ext File) bx
        else Inr Zero) = Inr r"
    by (rule read_branch)
  show ?thesis
  proof (cases "file_ext File \<in> set [''.h5'', ''.he5'']")
    case True
    with branch have "read_hdf5 fs File atr' bx epoch = Inr r" by simp
    from read_hdf5_planes [OF this] True show ?thesis by auto
  next
    case no_hdf5: False
    show ?thesis
    proof (cases "file_ext File \<in> set [''.jpeg'', ''.jpg'', ''.png'', ''.ras'', ''.bmp'']")
      case True
      with no_hdf5 branch have "read_image lb fs File bx = Inr r" by simp
      from read_image_planes [OF this] True show ?thesis by auto
    next
      case no_image: False
      show ?thesis
      proof (cases "processor = ''isce''")
        case True
        with no_hdf5 no_image branch have "read_isce lb fs File (file_ext File) bx = Inr r"
          by simp
        from read_isce_planes [OF this] show ?thesis by auto
      next
        case no_isce: False
        have "processor \<in> set [''roipac'', ''gamma'']"
          using read_attributes_processor [OF atr] p no_hdf5 no_isce by auto
        with no_hdf5 no_image no_isce branch
        have "read_roipac lb fs File (file_ext File) bx = Inr r" by simp
        then show ?thesis by (rule read_roipac_planes)
      qed
    qed
  qed
qed

theorem read_two_planes_iff_trans_witness:
  "plane_count (read example_lib example_fs ''g.trans'' None []) = Inr 2"
  using read_two_planes_iff_trans [OF example_read_trans]
  by (simp add: plane_count_def example_read_trans file_ext_examples)

text \<open>
  The claim as stated fails on the unwrapped-phase example: the registry of the
  specification gives the file an amplitude and phase output, and \<^verbatim>\<open>read\<close> returns
  one plane.
\<close>

theorem read_unw_one_plane:
  "dict_get (read_attributes example_fs ''a.unw'') ''PROCESSOR'' = Inr (Some ''roipac'') \<and>
   registry_output_kind ''roipac'' (file_ext ''a.unw'') = Some Amplitude_Phase_Kind \<and>
   plane_count (read example_lib example_fs ''a.unw'' None []) = Inr 1"
  by (simp add: example_unw_attributes dict_get_def file_ext_examples registry_output_kind_def
      example_read_unw plane_count_def)



section \<open>A missing epoch\<close>

lemma update_attributes_Inr:
  assumes "update_attributes lb atr bx = Inr atr'"
  shows "atr' = atr"
proof (cases bx)
  case None
  with assms show ?thesis by (simp add: update_attributes_def)
next
  case (Some b)
  obtain x0 y0 x1 y1 where "b = (x0, y0, x1, y1)" by (cases b)
  with assms Some show ?thesis
    by (auto simp: update_attributes_def bind_eq_Inr split: if_splits)
qed

lemma read_hdf5_missing_epoch:
  assumes "atr ''FILE_TYPE'' = Some k"
    and "k \<in> {''interferograms'', ''coherence'', ''wrapped'', ''timeseries''}"
    and "h5 fs File = Inr h5file"
    and "members_getitem h5file k = Inr g"
    and "h5_keys g = Inr epochList"
    and "epoch \<notin> set epochList"
    and "epoch \<noteq> []" and "epoch \<noteq> ''.''" and "CHR ''/'' \<notin> set epoch"
  shows "read_hdf5 fs File atr bx epoch = Inl (if k = ''timeseries'' then TypeError else KeyError)"
proof -
  from assms(5) obtain a ms where g: "g = H5Group a ms" and keys: "epochList = map fst ms"
    by (cases g) auto
  from assms(6) keys have none: "map_of ms epoch = None"
    by (simp add: map_of_eq_None_iff)
  have get: "h5_get h5file g epoch = Inr None"
    and item: "h5_getitem h5file g epoch = Inl KeyError"
    using none by (simp_all add: g h5_resolve_plain [OF assms(7-9)])
  have crop: "dataset_crop None bx = Inl TypeError"
    by (simp add: dataset_crop_def)
  have "k \<in> set [''interferograms'', ''coherence'', ''wrapped'', ''timeseries'']"
    using assms(2) by simp
  then show ?thesis
    by (simp add: read_hdf5_def hdf5_dataset_def assms(1,3,4,5) getitem_def get item crop)
qed

lemma example_ts_attributes:
  "read_attributes example_fs ''ts.h5'' =
     Inr [''WIDTH'' \<mapsto> ''2'', ''FILE_LENGTH'' \<mapsto> ''1'', ''PROCESSOR'' \<mapsto> ''pysar'',
          ''FILE_TYPE'' \<mapsto> ''timeseries'', ''ref_date'' \<mapsto> ''20100101'', ''UNIT'' \<mapsto> ''m'']"
  by (simp add: read_attributes_def tagged_attributes_def example_fs_def path_defs
      h5_attributes_def first_key_def h5_attrs_of_def ref_date_default_def
      example_timeseries_def members_getitem_def h5_resolve_def h5_components_def
      set_unit_def getitem_def)

lemma example_ts_group:
  "members_getitem example_timeseries ''timeseries'' =
     Inr (H5Group [''WIDTH'' \<mapsto> ''2'', ''FILE_LENGTH'' \<mapsto> ''1'']
       [(''20100101'', H5Dataset Map.empty [[Float32 0, Float32 0]]),
        (''20100212'', H5Dataset Map.empty [[Float32 5, Float32 6]])])"
  by (simp add: members_getitem_def h5_resolve_def h5_components_def example_timeseries_def)

text \<open>
  C8, for an epoch given by its name. Let \<^verbatim>\<open>read\<close> be called on a container file
  whose \<^verbatim>\<open>FILE_TYPE\<close> is one of the groups of epochs (interferograms, coherence,
  wrapped, timeseries), with an epoch label that is a plain name (not empty, not
  \<^verbatim>\<open>.\<close>, and with no \<^verbatim>\<open>/\<close> in it) and is not among the members of that group.
  Then the call fails and returns no data, whatever the window. With no window the
  exception is the TypeError of indexing \<^verbatim>\<open>None\<close> for a time series, and the
  KeyError of the group lookup for the other three.
\<close>

theorem read_missing_epoch_fails:
  assumes "file_ext File \<in> {''.h5'', ''.he5''}"
    and "read_attributes fs File = Inr atr"
    and "atr ''FILE_TYPE'' = Some k"
    and "k \<in> {''interferograms'', ''coherence'', ''wrapped'', ''timeseries''}"
    and "h5 fs File = Inr h5file"
    and "members_getitem h5file k = Inr g"
    and "h5_keys g = Inr epochList"
    and "epoch \<notin> set epochList"
    and "epoch \<noteq> []" and "epoch \<noteq> ''.''" and "CHR ''/'' \<notin> set epoch"
  shows "(\<exists>e. read lb fs File bx epoch = Inl e) \<and>
    read lb fs File None epoch = Inl (if k = ''timeseries'' then TypeError else KeyError)"
proof
  have ext: "file_ext File \<in> set [''.h5'', ''.he5'']"
    using assms(1) by simp
  from read_attributes_processor [OF assms(2)] obtain p where p: "atr ''PROCESSOR'' = Some p"
    by auto
  show "\<exists>e. read lb fs File bx epoch = Inl e"
  proof (cases "update_attributes lb atr bx")
    case (Inl e)
    then show ?thesis
      by (simp add: read_def assms(2) getitem_def p)
  next
    case (Inr atr')
    then have "atr' = atr" by (rule update_attributes_Inr)
    with assms(3) have "atr' ''FILE_TYPE'' = Some k" by simp
    from read_hdf5_missing_epoch [where atr = atr' and bx = bx, OF this assms(4-11)] Inr ext
    show ?thesis
      by (simp add: read_def assms(2) getitem_def p)
  qed
  show "read lb fs File None epoch = Inl (if k = ''timeseries'' then TypeError else KeyError)"
    using read_hdf5_missing_epoch [where atr = atr and bx = None, OF assms(3-11)] ext
    by (simp add: read_def assms(2) getitem_def p update_attributes_def)
qed

text \<open>
  The time series of the example holds the epochs 20100101 and 20100212; reading the
  epoch 20100213 fails.
\<close>

theorem read_missing_epoch_fails_witness:
  "read example_lib example_fs ''ts.h5'' None ''20100213'' = Inl TypeError"
proof -
  have "(\<exists>e. read example_lib example_fs ''ts.h5'' None ''20100213'' = Inl e) \<and>
    read example_lib example_fs ''ts.h5'' None ''20100213'' =
      Inl (if ''timeseries'' = ''timeseries'' then TypeError else KeyError)"
  proof (rule read_missing_epoch_fails [OF _ example_ts_attributes])
    show "file_ext ''ts.h5'' \<in> {''.h5'', ''.he5''}"
      by (simp add: file_ext_examples)
    show "[''WIDTH'' \<mapsto> ''2'', ''FILE_LENGTH'' \<mapsto> ''1'', ''PROCESSOR'' \<mapsto> ''pysar'',
          ''FILE_TYPE'' \<mapsto> ''timeseries'', ''ref_date'' \<mapsto> ''20100101'', ''UNIT'' \<mapsto> ''m'']
          ''FILE_TYPE'' = Some ''timeseries''"
      by simp
    show "''timeseries'' \<in> {''interferograms'', ''coherence'', ''wrapped'', ''timeseries''}"
      by simp
    show "h5 example_fs ''ts.h5'' = Inr example_timeseries"
      by (simp add: example_fs_def)
    show "members_getitem example_timeseries ''timeseries'' =
        Inr (H5Group [''WIDTH'' \<mapsto> ''2'', ''FILE_LENGTH'' \<mapsto> ''1'']
         [(''20100101'', H5Dataset Map.empty [[Float32 0, Float32 0]]),
          (''20100212'', H5Dataset Map.empty [[Float32 5, Float32 6]])])"
      by (rule example_ts_group)
    show "h5_keys (H5Group [''WIDTH'' \<mapsto> ''2'', ''FILE_LENGTH'' \<mapsto> ''1'']
         [(''20100101'', H5Dataset Map.empty [[Float32 0, Float32 0]]),
          (''20100212'', H5Dataset Map.empty [[Float32 5, Float32 (6::real)]])]) =
        Inr [''20100101'', ''20100212'']"
      by simp
    show "''20100213'' \<notin> set [''20100101'', ''20100212'']"
      by simp
    show "''20100213'' \<noteq> []" and "''20100213'' \<noteq> ''.''"
      and "CHR ''/'' \<notin> set ''20100213''"
      by simp_all
  qed
  then show ?thesis by simp
qed

text \<open>
  The claim as stated fails for an epoch label that is a path. The members of the time
  series of the example are 20100101 and 20100212. The label
  \<^verbatim>\<open>/timeseries/20100212\<close> is not among them, so \<^verbatim>\<open>read\<close> prints its message;
  it then goes on, \<^verbatim>\<open>get\<close> follows the path from the root of the file, and the
  call returns the dataset with its attributes.
\<close>

theorem read_epoch_given_by_path:
  "bind (members_getitem example_timeseries ''timeseries'') h5_keys =
     Inr [''20100101'', ''20100212''] \<and>
   read example_lib example_fs ''ts.h5'' None ''/timeseries/20100212'' =
     Inr (One_Plane (Array [[Float32 5, Float32 6]])
       [''WIDTH'' \<mapsto> ''2'', ''FILE_LENGTH'' \<mapsto> ''1'', ''PROCESSOR'' \<mapsto> ''pysar'',
        ''FILE_TYPE'' \<mapsto> ''timeseries'', ''ref_date'' \<mapsto> ''20100101'', ''UNIT'' \<mapsto> ''m''])"
proof
  show "bind (members_getitem example_timeseries ''timeseries'') h5_keys =
     Inr [''20100101'', ''20100212'']"
    by (simp add: example_ts_group)
  have opened: "h5 example_fs ''ts.h5'' = Inr example_timeseries"
    by (simp add: example_fs_def)
  have path: "h5_components ''/timeseries/20100212'' = [''timeseries'', ''20100212'']"
    by (simp add: h5_components_def)
  have get: "h5_resolve example_timeseries
      (H5Group [''WIDTH'' \<mapsto> ''2'', ''FILE_LENGTH'' \<mapsto> ''1'']
        [(''20100101'', H5Dataset Map.empty [[Float32 0, Float32 0]]),
         (''20100212'', H5Dataset Map.empty [[Float32 5, Float32 6]])])
      ''/timeseries/20100212'' =
      Some (H5Dataset Map.empty [[Float32 5, Float32 6]])"
    by (simp add: h5_resolve_def path example_timeseries_def)
  have "hdf5_dataset example_fs ''ts.h5''
      [''WIDTH'' \<mapsto> ''2'', ''FILE_LENGTH'' \<mapsto> ''1'', ''PROCESSOR'' \<mapsto> ''pysar'',
        ''FILE_TYPE'' \<mapsto> ''timeseries'', ''ref_date'' \<mapsto> ''20100101'', ''UNIT'' \<mapsto> ''m'']
      ''/timeseries/20100212'' =
      Inr (Some (H5Dataset Map.empty [[Float32 5, Float32 6]]))"
    by (simp add: hdf5_dataset_def opened getitem_def example_ts_group get)
  then show "read example_lib example_fs ''ts.h5'' None ''/timeseries/20100212'' =
     Inr (One_Plane (Array [[Float32 5, Float32 6]])
       [''WIDTH'' \<mapsto> ''2'', ''FILE_LENGTH'' \<mapsto> ''1'', ''PROCESSOR'' \<mapsto> ''pysar'',
        ''FILE_TYPE'' \<mapsto> ''timeseries'', ''ref_date'' \<mapsto> ''20100101'', ''UNIT'' \<mapsto> ''m''])"
    by (simp add: read_def file_ext_examples example_ts_attributes getitem_def
        update_attributes_def read_hdf5_def dataset_crop_def crop_def)
qed



section \<open>The attributes \<^verbatim>\<open>read\<close> returns\<close>

lemma read_float32_atr:
  assumes "read_float32 lb fs File args = Inr (a, p, t)"
  shows "read_attributes fs File = Inr t"
proof -
  from assms obtain atr w l where atr: "read_attributes fs File = Inr atr"
    and rest: "(case (case args of None \<Rightarrow> (0, 0, w, l) | Some b \<Rightarrow> b) of
       (x0, y0, x1, y1) \<Rightarrow>
         bind (reshape (fromfile (map Float32 (float32s fs File)) (y1 * 2 * w)) y1 (2 * w))
           (\<lambda>data.
              Inr (slice2 data y0 y1 x0 x1, slice2 data y0 y1 (w + x0) (w + x1), atr)))
       = Inr (a, p, t)"
    unfolding read_float32_def bind_eq_Inr by blast
  obtain x0 y0 x1 y1 where "(case args of None \<Rightarrow> (0, 0, w, l) | Some b \<Rightarrow> b) = (x0, y0, x1, y1)"
    by (rule prod_cases4)
  with rest have "atr = t" by (auto simp: bind_eq_Inr)
  with atr show ?thesis by simp
qed

lemma read_complex_float32_atr:
  assumes "read_complex_float32 lb fs File ri = Inr (Amplitude_Phase a p t)"
  shows "read_attributes fs File = Inr t"
  using assms by (auto simp: read_complex_float32_def bind_eq_Inr split: if_splits)

lemma read_real_float32_atr:
  assumes "read_real_float32 lb fs File = Inr (d, t)"
  shows "read_attributes fs File = Inr t"
  using assms by (auto simp: read_real_float32_def bind_eq_Inr)

lemma read_real_int16_atr:
  assumes "read_real_int16 lb fs File = Inr (d, t)"
  shows "read_attributes fs File = Inr t"
  using assms by (auto simp: read_real_int16_def bind_eq_Inr)

lemma read_complex_int16_atr:
  assumes "read_complex_int16 lb fs File args = Inr (d, t)"
  shows "read_attributes fs File = Inr t"
proof -
  from assms obtain atr w l where atr: "read_attributes fs File = Inr atr"
    and rest: "(case (case args of None \<Rightarrow> (0, 0, w, l) | Some b \<Rightarrow> b) of
       (x0, y0, x1, y1) \<Rightarrow>
         (let nlines = y1 - y0; WIDTH = x1 - x0 in
          bind (reshape (fromfile (int16s fs File) (y1 * 2 * w)) y1 (2 * w)) (\<lambda>data.
          bind (reshape (concat (slice2 data y0 y1 (2 * x0) (2 * x1))) (2 * nlines * WIDTH) 1)
            (\<lambda>data.
          bind (take_rows data (py_range2 0 (2 * nlines * WIDTH))) (\<lambda>re_rows.
          bind (take_rows data (py_range2 1 (2 * nlines * WIDTH))) (\<lambda>im_rows.
          bind (reshape (concat re_rows) nlines WIDTH) (\<lambda>re.
          bind (reshape (concat im_rows) nlines WIDTH) (\<lambda>im.
          Inr (map2 (map2 (\<lambda>r i. Complex128 (sint r) (sint i))) re im, atr)))))))))
       = Inr (d, t)"
    unfolding read_complex_int16_def bind_eq_Inr by blast
  obtain x0 y0 x1 y1 where "(case args of None \<Rightarrow> (0, 0, w, l) | Some b \<Rightarrow> b) = (x0, y0, x1, y1)"
    by (rule prod_cases4)
  with rest have "atr = t" by (auto simp: Let_def bind_eq_Inr)
  with atr show ?thesis by simp
qed

lemma read_hdf5_atr:
  "read_hdf5 fs File atr bx epoch = Inr r \<Longrightarrow> result_atr r = Some atr"
  by (auto simp: read_hdf5_def bind_eq_Inr)

lemma read_isce_atr:
  assumes "read_isce lb fs File ext bx = Inr r"
  shows "\<exists>t. read_attributes fs File = Inr t \<and> result_atr r = Some t"
proof -
  from assms obtain data t where
    src: "(if ext \<in> set [''.flat''] then
          bind (unpack3 (read_complex_float32 lb fs File 0)) (\<lambda>(amp, data, atr). Inr (data, atr))
        else if ext \<in> set [''.cor''] then read_real_float32 lb fs File
        else if ext \<in> set [''.slc''] then
          bind (unpack3 (read_complex_float32 lb fs File 0)) (\<lambda>(data, pha, atr). Inr (data, atr))
        else Inl NameError) = Inr (data, t)"
    and r: "r = One_Plane (Array (crop bx data)) t"
    by (auto simp: read_isce_def bind_eq_Inr)
  from src have "read_attributes fs File = Inr t"
    by (auto simp: bind_eq_Inr unpack3_eq_Inr split: if_splits
        dest: read_complex_float32_atr read_real_float32_atr)
  with r show ?thesis by simp
qed

lemma read_roipac_atr:
  assumes "read_roipac lb fs File ext bx = Inr r"
  shows "\<exists>t. read_attributes fs File = Inr t \<and> result_atr r = Some t"
  using assms
  by (auto simp: read_roipac_def bind_eq_Inr unpack3_eq_Inr split: if_splits
      dest: read_float32_atr read_complex_float32_atr read_real_float32_atr
        read_real_int16_atr read_complex_int16_atr)

text \<open>
  A call of \<^verbatim>\<open>read\<close> that returns has passed the block
  \<^verbatim>\<open># Update attributes if subset\<close> without entering its inner branch, and
  returns the attributes of \<^verbatim>\<open>read_attributes\<close>, unless the file is a browsable
  image, whose branch returns the content of the \<^verbatim>\<open>.rsc\<close> sidecar.
\<close>

lemma read_returned_attributes:
  assumes "read lb fs File bx epoch = Inr r"
    and "file_ext File \<notin> {''.jpeg'', ''.jpg'', ''.png'', ''.ras'', ''.bmp''}"
  shows "\<exists>atr. read_attributes fs File = Inr atr \<and> result_atr r = Some atr"
proof -
  from assms(1) obtain atr processor atr' where
    atr: "read_attributes fs File = Inr atr"
    and p: "atr ''PROCESSOR'' = Some processor"
    and upd: "update_attributes lb atr bx = Inr atr'"
    and branch:
      "(if file_ext File \<in> set [''.h5'', ''.he5''] then read_hdf5 fs File atr' bx epoch
        else if file_ext File \<in> set [''.jpeg'', ''.jpg'', ''.png'', ''.ras'', ''.bmp''] then
          read_image lb fs File bx
        else if processor = ''isce'' then read_isce lb fs File (file_ext File) bx
        else if processor \<in> set [''roipac'', ''gamma''] then
          read_roipac lb fs File (file_ext File) bx
        else Inr Zero) = Inr r"
    by (rule read_branch)
  from upd have same: "atr' = atr" by (rule update_attributes_Inr)
  have no_image: "file_ext File \<notin> set [''.jpeg'', ''.jpg'', ''.png'', ''.ras'', ''.bmp'']"
    using assms(2) by simp
  have "result_atr r = Some atr"
  proof (cases "file_ext File \<in> set [''.h5'', ''.he5'']")
    case True
    with branch have "read_hdf5 fs File atr' bx epoch = Inr r" by simp
    then have "result_atr r = Some atr'" by (rule read_hdf5_atr)
    with same show ?thesis by simp
  next
    case no_hdf5: False
    have "\<exists>t. read_attributes fs File = Inr t \<and> result_atr r = Some t"
    proof (cases "processor = ''isce''")
      case True
      with no_hdf5 no_image branch have "read_isce lb fs File (file_ext File) bx = Inr r"
        by simp
      then show ?thesis by (rule read_isce_atr)
    next
      case no_isce: False
      have "processor \<in> set [''roipac'', ''gamma'']"
        using read_attributes_processor [OF atr] p no_hdf5 no_isce by auto
      with no_hdf5 no_image no_isce branch
      have "read_roipac lb fs File (file_ext File) bx = Inr r" by simp
      then show ?thesis by (rule read_roipac_atr)
    qed
    with atr show ?thesis by simp
  qed
  with atr show ?thesis by simp
qed

lemma full_window:
  fixes w l a b :: int
  assumes "w * l \<le> a * b" and "0 < a" and "a \<le> w" and "0 < b" and "b \<le> l"
  shows "a = w \<and> b = l"
proof -
  have "a * b \<le> w * b" using assms(3,4) by (simp add: mult_right_mono)
  moreover have "w * b \<le> w * l" using assms(2,3,5) by (simp add: mult_left_mono)
  ultimately have "w * b \<le> a * b \<and> a * b \<le> w * b \<and> w * l \<le> w * b \<and> w * b \<le> w * l"
    using assms(1) by linarith
  then have 1: "w * b = a * b" and 2: "w * l = w * b"
    by linarith+
  from 1 assms(4) have "a = w" by simp
  moreover from 2 assms(2,3) have "b = l" by simp
  ultimately show ?thesis ..
qed

lemma example_velocity_attributes:
  "read_attributes example_fs ''v.h5'' =
     Inr [''WIDTH'' \<mapsto> ''2'', ''FILE_LENGTH'' \<mapsto> ''2'', ''PROCESSOR'' \<mapsto> ''pysar'',
          ''FILE_TYPE'' \<mapsto> ''velocity'', ''UNIT'' \<mapsto> ''m/yr'']"
  by (simp add: read_attributes_def tagged_attributes_def example_fs_def path_defs
      h5_attributes_def first_key_def h5_attrs_of_def ref_date_default_def
      example_velocity_def members_getitem_def h5_resolve_def h5_components_def
      set_unit_def getitem_def)

lemma example_velocity_float_attr:
  "float_attr example_lib
     [''WIDTH'' \<mapsto> ''2'', ''FILE_LENGTH'' \<mapsto> ''2'', ''PROCESSOR'' \<mapsto> ''pysar'',
      ''FILE_TYPE'' \<mapsto> ''velocity'', ''UNIT'' \<mapsto> ''m/yr''] ''WIDTH'' = Inr 2"
  "float_attr example_lib
     [''WIDTH'' \<mapsto> ''2'', ''FILE_LENGTH'' \<mapsto> ''2'', ''PROCESSOR'' \<mapsto> ''pysar'',
      ''FILE_TYPE'' \<mapsto> ''velocity'', ''UNIT'' \<mapsto> ''m/yr''] ''FILE_LENGTH'' = Inr 2"
  by (simp_all add: float_attr_def getitem_def example_lib_def float_of_decimal_examples)

lemma example_velocity_dataset:
  "read_hdf5 example_fs ''v.h5'' atr bx [] =
     bind (getitem atr ''FILE_TYPE'') (\<lambda>k.
       if k = ''velocity''
       then Inr (One_Plane
                  (Array (crop bx [[Float32 1, Float32 2], [Float32 3, Float32 4]])) atr)
       else read_hdf5 example_fs ''v.h5'' atr bx [])"
proof (cases "atr ''FILE_TYPE''")
  case None
  then show ?thesis
    by (simp add: read_hdf5_def hdf5_dataset_def getitem_def example_fs_def)
next
  case (Some k)
  have "h5 example_fs ''v.h5'' = Inr example_velocity"
    by (simp add: example_fs_def)
  then show ?thesis
    by (simp add: Some read_hdf5_def hdf5_dataset_def getitem_def example_velocity_def
        members_getitem_def h5_resolve_def h5_components_def dataset_crop_def)
qed

lemma example_read_velocity_small:
  "read example_lib example_fs ''v.h5'' (Some (0, 0, 1, 1)) [] = Inl NameError"
  by (simp add: read_def file_ext_examples example_velocity_attributes getitem_def
      update_attributes_def example_velocity_float_attr float_mul_examples)

lemma example_unw_float_attr:
  "float_attr example_lib
     (example_rsc(''PROCESSOR'' \<mapsto> ''roipac'', ''FILE_TYPE'' \<mapsto> ''.unw'',
        ''UNIT'' \<mapsto> ''radian'')) ''WIDTH'' = Inr 2"
  "float_attr example_lib
     (example_rsc(''PROCESSOR'' \<mapsto> ''roipac'', ''FILE_TYPE'' \<mapsto> ''.unw'',
        ''UNIT'' \<mapsto> ''radian'')) ''FILE_LENGTH'' = Inr 1"
  by (rule example_int_attr; simp add: example_rsc_def)+

text \<open>
  C1, as the code has it. Let \<^verbatim>\<open>read\<close> return for a call with a window on a file
  that is not a browsable image and declares the integers \<open>w\<close> and \<open>l\<close> as
  \<^verbatim>\<open>WIDTH\<close> and \<^verbatim>\<open>FILE_LENGTH\<close>, their product below \<open>2\<^sup>5\<^sup>3\<close> in magnitude. If
  the window does not strictly reduce the read, that is, if its area is at least \<open>w\<close>
  times \<open>l\<close>, the block \<^verbatim>\<open># Update attributes if subset\<close> leaves the attributes
  as they are and the attributes returned are those of the full extent; and if the
  window lies within the extent, the \<^verbatim>\<open>WIDTH\<close> and \<^verbatim>\<open>FILE_LENGTH\<close> they declare
  are the width and the height of the window.
\<close>

theorem read_window_attributes:
  assumes "read lb fs File (Some (x0, y0, x1, y1)) epoch = Inr r"
    and "file_ext File \<notin> {''.jpeg'', ''.jpg'', ''.png'', ''.ras'', ''.bmp''}"
    and "read_attributes fs File = Inr atr"
    and "float_attr lb atr ''WIDTH'' = Inr (of_int w)"
    and "float_attr lb atr ''FILE_LENGTH'' = Inr (of_int l)"
    and "\<bar>w * l\<bar> < 2 ^ 53"
    and "w * l \<le> (x1 - x0) * (y1 - y0)"
  shows "update_attributes lb atr (Some (x0, y0, x1, y1)) = Inr atr \<and>
    result_atr r = Some atr \<and>
    (0 \<le> x0 \<and> x0 < x1 \<and> x1 \<le> w \<and> 0 \<le> y0 \<and> y0 < y1 \<and> y1 \<le> l
       \<longrightarrow> x1 - x0 = w \<and> y1 - y0 = l)"
proof (intro conjI)
  have "\<not> (of_int ((x1 - x0) * (y1 - y0)) :: rat) < of_int (w * l)"
    using assms(7) by (simp only: of_int_less_iff)
  then show "update_attributes lb atr (Some (x0, y0, x1, y1)) = Inr atr"
    by (simp add: update_attributes_def assms(4,5) float_mul_of_int [OF assms(6)])
  from read_returned_attributes [OF assms(1,2)] assms(3)
  show "result_atr r = Some atr" by auto
  show "0 \<le> x0 \<and> x0 < x1 \<and> x1 \<le> w \<and> 0 \<le> y0 \<and> y0 < y1 \<and> y1 \<le> l
       \<longrightarrow> x1 - x0 = w \<and> y1 - y0 = l"
  proof
    assume window: "0 \<le> x0 \<and> x0 < x1 \<and> x1 \<le> w \<and> 0 \<le> y0 \<and> y0 < y1 \<and> y1 \<le> l"
    from assms(7) show "x1 - x0 = w \<and> y1 - y0 = l"
      by (rule full_window) (use window in simp_all)
  qed
qed

lemma example_read_unw_full:
  "read example_lib example_fs ''a.unw'' (Some (0, 0, 2, 1)) [] =
     Inr (One_Plane (Array [[Float32 3, Float32 4]])
            (example_rsc(''PROCESSOR'' \<mapsto> ''roipac'', ''FILE_TYPE'' \<mapsto> ''.unw'',
               ''UNIT'' \<mapsto> ''radian'')))"
  by (simp add: read_def file_ext_examples example_unw_attributes getitem_def
      update_attributes_def example_unw_float_attr float_mul_examples
      read_roipac_def read_float32_def example_unw_int_attr
      example_samples fromfile_def reshape_def rows_of_def slice2_def py_slice_def
      slice_index_def)

text \<open>
  On the unwrapped-phase file of the example, of width 2 and length 1, the window
  \<open>(0, 0, 2, 1)\<close> of the full extent returns the attributes of the full extent, with
  the width 2 and the length 1.
\<close>

theorem read_window_attributes_witness:
  "result_get (read example_lib example_fs ''a.unw'' (Some (0, 0, 2, 1)) []) ''WIDTH'' =
     Inr (Some ''2'') \<and>
   result_get (read example_lib example_fs ''a.unw'' (Some (0, 0, 2, 1)) []) ''FILE_LENGTH'' =
     Inr (Some ''1'') \<and>
   result_get (read example_lib example_fs ''a.unw'' (Some (0, 0, 2, 1)) []) ''UNIT'' =
     dict_get (read_attributes example_fs ''a.unw'') ''UNIT''"
proof -
  let ?full = "example_rsc(''PROCESSOR'' \<mapsto> ''roipac'', ''FILE_TYPE'' \<mapsto> ''.unw'',
      ''UNIT'' \<mapsto> ''radian'')"
  obtain r where r: "read example_lib example_fs ''a.unw'' (Some (0, 0, 2, 1)) [] = Inr r"
    by (simp add: example_read_unw_full)
  have "update_attributes example_lib ?full (Some (0, 0, 2, 1)) = Inr ?full \<and>
    result_atr r = Some ?full \<and>
    ((0::int) \<le> 0 \<and> (0::int) < 2 \<and> (2::int) \<le> 2 \<and> (0::int) \<le> 0 \<and> (0::int) < 1 \<and> (1::int) \<le> 1
       \<longrightarrow> (2::int) - 0 = 2 \<and> (1::int) - 0 = 1)"
  proof (rule read_window_attributes [OF r _ example_unw_attributes])
    show "file_ext ''a.unw'' \<notin> {''.jpeg'', ''.jpg'', ''.png'', ''.ras'', ''.bmp''}"
      by (simp add: file_ext_examples)
    show "float_attr example_lib ?full ''WIDTH'' = Inr (of_int 2)"
      by (simp add: example_unw_float_attr)
    show "float_attr example_lib ?full ''FILE_LENGTH'' = Inr (of_int 1)"
      by (simp add: example_unw_float_attr)
    show "\<bar>(2::int) * 1\<bar> < 2 ^ 53" by simp
    show "(2::int) * 1 \<le> (2 - 0) * (1 - 0)" by simp
  qed
  then have "result_atr r = Some ?full" by simp
  then show ?thesis
    by (simp add: r result_get_def example_unw_attributes dict_get_def example_rsc_def)
qed

text \<open>
  The claim as stated fails on the velocity container of the example, whose extent is
  2 by 2. The window \<open>(0, 0, 1, 1)\<close> lies within the extent and strictly reduces the
  read. The call does not return the attributes of the full extent: it returns
  nothing, because \<^verbatim>\<open>read\<close> goes to recompute the attributes with
  \<^verbatim>\<open>subset.subset_attributes\<close>, and the name \<^verbatim>\<open>subset\<close> is not bound.
\<close>

theorem read_smaller_window_returns_nothing:
  "dict_get (read_attributes example_fs ''v.h5'') ''WIDTH'' = Inr (Some ''2'') \<and>
   dict_get (read_attributes example_fs ''v.h5'') ''FILE_LENGTH'' = Inr (Some ''2'') \<and>
   read example_lib example_fs ''v.h5'' (Some (0, 0, 1, 1)) [] = Inl NameError"
  by (simp add: example_velocity_attributes dict_get_def example_read_velocity_small)



section \<open>The window of the full extent\<close>

lemma py_int_of_int [simp]: "py_int (of_int i) = i"
  by (simp add: py_int_def)

lemma int_attr_of_float_attr:
  "float_attr lb atr key = Inr (of_int i) \<Longrightarrow> int_attr lb atr key = Inr i"
  by (simp add: int_attr_def)

lemma update_attributes_full:
  assumes "float_attr lb atr ''WIDTH'' = Inr (of_int w)"
    and "float_attr lb atr ''FILE_LENGTH'' = Inr (of_int l)"
    and "\<bar>w * l\<bar> < 2 ^ 53"
  shows "update_attributes lb atr (Some (0, 0, w, l)) = Inr atr"
  by (simp add: update_attributes_def assms(1,2) float_mul_of_int [OF assms(3)])

lemma crop_None [simp]: "crop None d = d"
  by (simp add: crop_def)

lemma bind_crop2:
  assumes "\<And>d t. m = Inr (d, t) \<Longrightarrow> crop bx d = d"
  shows "bind m (\<lambda>(d, t). Inr (One_Plane (Array (crop bx d)) t)) =
         bind m (\<lambda>(d, t). Inr (One_Plane (Array (crop None d)) t))"
proof (cases m)
  case (Inl e)
  then show ?thesis by simp
next
  case (Inr x)
  obtain d t where "x = (d, t)" by (cases x)
  with Inr assms show ?thesis by simp
qed

lemma bind_crop3:
  assumes "\<And>a p t. m = Inr (a, p, t) \<Longrightarrow> crop bx p = p"
  shows "bind m (\<lambda>(a, p, t). Inr (One_Plane (Array (crop bx p)) t)) =
         bind m (\<lambda>(a, p, t). Inr (One_Plane (Array (crop None p)) t))"
proof (cases m)
  case (Inl e)
  then show ?thesis by simp
next
  case (Inr x)
  obtain a p t where "x = (a, p, t)" by (cases x)
  with Inr assms show ?thesis by simp
qed

text \<open>
  The arrays of the decoders that take no window have the declared shape, by
  \<^verbatim>\<open>reshape\<close>; cropping them to the full extent changes nothing.
\<close>

lemma read_real_float32_shape:
  assumes "read_attributes fs File = Inr atr"
    and "int_attr lb atr ''WIDTH'' = Inr w" and "int_attr lb atr ''FILE_LENGTH'' = Inr l"
    and "0 \<le> w" and "0 \<le> l"
    and "read_real_float32 lb fs File = Inr (d, t)"
  shows "crop (Some (0, 0, w, l)) d = d"
proof -
  from assms(6) have "reshape (map Float32 (float32s fs File)) l w = Inr d"
    by (simp add: read_real_float32_def assms(1-3) bind_eq_Inr)
  then show ?thesis using assms(5,4) by (rule crop_reshaped)
qed

lemma read_real_int16_shape:
  assumes "read_attributes fs File = Inr atr"
    and "int_attr lb atr ''WIDTH'' = Inr w" and "int_attr lb atr ''FILE_LENGTH'' = Inr l"
    and "0 \<le> w" and "0 \<le> l"
    and "read_real_int16 lb fs File = Inr (d, t)"
  shows "crop (Some (0, 0, w, l)) d = d"
proof -
  from assms(6) have "reshape (map Int16 (int16s fs File)) l w = Inr d"
    by (simp add: read_real_int16_def assms(1-3) bind_eq_Inr)
  then show ?thesis using assms(5,4) by (rule crop_reshaped)
qed

lemma read_complex_float32_shape:
  assumes "read_attributes fs File = Inr atr"
    and "int_attr lb atr ''WIDTH'' = Inr w" and "int_attr lb atr ''FILE_LENGTH'' = Inr l"
    and "0 \<le> w" and "0 \<le> l"
    and "read_complex_float32 lb fs File 0 = Inr (Amplitude_Phase a p t)"
  shows "crop (Some (0, 0, w, l)) a = a" and "crop (Some (0, 0, w, l)) p = p"
proof -
  from assms(6) obtain xs ys where "reshape xs l w = Inr a" and "reshape ys l w = Inr p"
    by (auto simp: read_complex_float32_def assms(1-3) bind_eq_Inr)
  then show "crop (Some (0, 0, w, l)) a = a" and "crop (Some (0, 0, w, l)) p = p"
    using assms(4,5) by (simp_all add: crop_reshaped)
qed

lemma read_isce_full:
  assumes "read_attributes fs File = Inr atr"
    and "int_attr lb atr ''WIDTH'' = Inr w" and "int_attr lb atr ''FILE_LENGTH'' = Inr l"
    and "0 \<le> w" and "0 \<le> l"
  shows "read_isce lb fs File ext (Some (0, 0, w, l)) = read_isce lb fs File ext None"
  unfolding read_isce_def
proof (rule bind_crop2)
  fix d t
  assume "(if ext \<in> set [''.flat''] then
          bind (unpack3 (read_complex_float32 lb fs File 0)) (\<lambda>(amp, data, atr). Inr (data, atr))
        else if ext \<in> set [''.cor''] then read_real_float32 lb fs File
        else if ext \<in> set [''.slc''] then
          bind (unpack3 (read_complex_float32 lb fs File 0)) (\<lambda>(data, pha, atr). Inr (data, atr))
        else Inl NameError) = Inr (d, t)"
  then consider
    (flat) a where "read_complex_float32 lb fs File 0 = Inr (Amplitude_Phase a d t)"
    | (cor) "read_real_float32 lb fs File = Inr (d, t)"
    | (slc) p where "read_complex_float32 lb fs File 0 = Inr (Amplitude_Phase d p t)"
    by (auto simp: bind_eq_Inr unpack3_eq_Inr split: if_splits)
  then show "crop (Some (0, 0, w, l)) d = d"
  proof cases
    case flat
    from read_complex_float32_shape(2) [OF assms this] show ?thesis .
  next
    case cor
    from read_real_float32_shape [OF assms this] show ?thesis .
  next
    case slc
    from read_complex_float32_shape(1) [OF assms this] show ?thesis .
  qed
qed

lemma decoders_full_window:
  assumes "read_attributes fs File = Inr atr"
    and "int_attr lb atr ''WIDTH'' = Inr w" and "int_attr lb atr ''FILE_LENGTH'' = Inr l"
  shows "read_float32 lb fs File (Some (0, 0, w, l)) = read_float32 lb fs File None"
    and "read_complex_int16 lb fs File (Some (0, 0, w, l)) = read_complex_int16 lb fs File None"
  by (simp_all add: read_float32_def read_complex_int16_def assms)

lemma read_roipac_full:
  assumes "read_attributes fs File = Inr atr"
    and "int_attr lb atr ''WIDTH'' = Inr w" and "int_attr lb atr ''FILE_LENGTH'' = Inr l"
    and "0 \<le> w" and "0 \<le> l"
  shows "read_roipac lb fs File ext (Some (0, 0, w, l)) = read_roipac lb fs File ext None"
proof -
  have dem: "bind (read_real_int16 lb fs File)
        (\<lambda>(d, t). Inr (One_Plane (Array (crop (Some (0, 0, w, l)) d)) t)) =
      bind (read_real_int16 lb fs File) (\<lambda>(d, t). Inr (One_Plane (Array (crop None d)) t))"
    by (rule bind_crop2) (rule read_real_int16_shape [OF assms])
  have mli: "bind (read_real_float32 lb fs File)
        (\<lambda>(d, t). Inr (One_Plane (Array (crop (Some (0, 0, w, l)) d)) t)) =
      bind (read_real_float32 lb fs File) (\<lambda>(d, t). Inr (One_Plane (Array (crop None d)) t))"
    by (rule bind_crop2) (rule read_real_float32_shape [OF assms])
  have int: "bind (unpack3 (read_complex_float32 lb fs File 0))
        (\<lambda>(a, p, t). Inr (One_Plane (Array (crop (Some (0, 0, w, l)) p)) t)) =
      bind (unpack3 (read_complex_float32 lb fs File 0))
        (\<lambda>(a, p, t). Inr (One_Plane (Array (crop None p)) t))"
    by (rule bind_crop3) (simp add: unpack3_eq_Inr read_complex_float32_shape(2) [OF assms])
  show ?thesis
    unfolding read_roipac_def decoders_full_window [OF assms(1-3)] dem mli int ..
qed

lemma read_hdf5_full:
  assumes "0 \<le> w" and "0 \<le> l"
    and "\<And>d a. read_hdf5 fs File atr None epoch = Inr (One_Plane (Array d) a) \<Longrightarrow>
      length d \<le> nat l \<and> (\<forall>row \<in> set d. length row \<le> nat w)"
  shows "read_hdf5 fs File atr (Some (0, 0, w, l)) epoch = read_hdf5 fs File atr None epoch"
proof (cases "hdf5_dataset fs File atr epoch")
  case (Inl e)
  then show ?thesis by (simp add: read_hdf5_def)
next
  case (Inr dset)
  show ?thesis
  proof (cases dset)
    case None
    with Inr show ?thesis by (simp add: read_hdf5_def dataset_crop_def)
  next
    case (Some n)
    show ?thesis
    proof (cases n)
      case (H5Group a ms)
      with Inr Some show ?thesis by (simp add: read_hdf5_def dataset_crop_def)
    next
      case (H5Dataset a d)
      with Inr Some have "read_hdf5 fs File atr None epoch = Inr (One_Plane (Array d) atr)"
        by (simp add: read_hdf5_def dataset_crop_def)
      from assms(3) [OF this] have "slice2 d 0 l 0 w = d"
        using assms(1,2) by (intro slice2_all) simp_all
      with Inr Some H5Dataset show ?thesis
        by (simp add: read_hdf5_def dataset_crop_def crop_def)
    qed
  qed
qed

text \<open>
  C5, as the code has it. Let a file that is not a browsable image declare the
  integers \<open>w\<close> and \<open>l\<close>, not negative and with a product below \<open>2\<^sup>5\<^sup>3\<close>, as
  \<^verbatim>\<open>WIDTH\<close> and \<^verbatim>\<open>FILE_LENGTH\<close>, and, if it is a container, let the dataset that
  \<^verbatim>\<open>read\<close> returns from it have at most \<open>l\<close> rows of at most \<open>w\<close> samples. Then
  \<^verbatim>\<open>read\<close> with the window \<open>(0, 0, w, l)\<close> and \<^verbatim>\<open>read\<close> with no window return
  the same: the same arrays and the same attributes, or the same exception.
\<close>

theorem read_full_window_round_trip:
  assumes "read_attributes fs File = Inr atr"
    and "file_ext File \<notin> {''.jpeg'', ''.jpg'', ''.png'', ''.ras'', ''.bmp''}"
    and "float_attr lb atr ''WIDTH'' = Inr (of_int w)"
    and "float_attr lb atr ''FILE_LENGTH'' = Inr (of_int l)"
    and "0 \<le> w" and "0 \<le> l" and "w * l < 2 ^ 53"
    and "\<And>d a. file_ext File \<in> {''.h5'', ''.he5''} \<Longrightarrow>
      read lb fs File None epoch = Inr (One_Plane (Array d) a) \<Longrightarrow>
      length d \<le> nat l \<and> (\<forall>row \<in> set d. length row \<le> nat w)"
  shows "read lb fs File (Some (0, 0, w, l)) epoch = read lb fs File None epoch"
proof -
  note iw = int_attr_of_float_attr [OF assms(3)]
  note il = int_attr_of_float_attr [OF assms(4)]
  have small: "\<bar>w * l\<bar> < 2 ^ 53"
    using assms(5-7) by simp
  have no_image: "file_ext File \<notin> set [''.jpeg'', ''.jpg'', ''.png'', ''.ras'', ''.bmp'']"
    using assms(2) by simp
  from read_attributes_processor [OF assms(1)] obtain processor where
    p: "atr ''PROCESSOR'' = Some processor" by auto
  let ?branch = "\<lambda>bx.
       if file_ext File \<in> set [''.h5'', ''.he5''] then read_hdf5 fs File atr bx epoch
        else if file_ext File \<in> set [''.jpeg'', ''.jpg'', ''.png'', ''.ras'', ''.bmp''] then
          read_image lb fs File bx
        else if processor = ''isce'' then read_isce lb fs File (file_ext File) bx
        else if processor \<in> set [''roipac'', ''gamma''] then
          read_roipac lb fs File (file_ext File) bx
        else Inr Zero"
  have with_window: "read lb fs File (Some (0, 0, w, l)) epoch = ?branch (Some (0, 0, w, l))"
    by (simp add: read_def assms(1) getitem_def p update_attributes_full [OF assms(3,4) small])
  have no_window: "read lb fs File None epoch = ?branch None"
    by (simp add: read_def assms(1) getitem_def p update_attributes_def)
  have "?branch (Some (0, 0, w, l)) = ?branch None"
  proof (cases "file_ext File \<in> set [''.h5'', ''.he5'']")
    case True
    then have same: "read lb fs File None epoch = read_hdf5 fs File atr None epoch"
      using no_window by simp
    have "read_hdf5 fs File atr (Some (0, 0, w, l)) epoch = read_hdf5 fs File atr None epoch"
      using assms(5,6)
    proof (rule read_hdf5_full)
      fix d a
      assume "read_hdf5 fs File atr None epoch = Inr (One_Plane (Array d) a)"
      with same have "read lb fs File None epoch = Inr (One_Plane (Array d) a)" by simp
      with True show "length d \<le> nat l \<and> (\<forall>row \<in> set d. length row \<le> nat w)"
        by (intro assms(8)) simp_all
    qed
    with True show ?thesis by simp
  next
    case no_hdf5: False
    with no_image show ?thesis
      by (simp add: read_isce_full [OF assms(1) iw il assms(5,6)]
          read_roipac_full [OF assms(1) iw il assms(5,6)])
  qed
  with with_window no_window show ?thesis by simp
qed

lemma example_read_velocity:
  "read example_lib example_fs ''v.h5'' None [] =
     Inr (One_Plane (Array [[Float32 1, Float32 2], [Float32 3, Float32 4]])
       [''WIDTH'' \<mapsto> ''2'', ''FILE_LENGTH'' \<mapsto> ''2'', ''PROCESSOR'' \<mapsto> ''pysar'',
        ''FILE_TYPE'' \<mapsto> ''velocity'', ''UNIT'' \<mapsto> ''m/yr''])"
  by (simp add: read_def file_ext_examples example_velocity_attributes getitem_def
      update_attributes_def example_velocity_dataset)

text \<open>
  The velocity container of the example declares the extent 2 by 2 and holds a dataset
  of two rows of two samples.
\<close>

theorem read_full_window_round_trip_witness:
  "read example_lib example_fs ''v.h5'' (Some (0, 0, 2, 2)) [] =
     read example_lib example_fs ''v.h5'' None [] \<and>
   read example_lib example_fs ''v.h5'' None [] =
     Inr (One_Plane (Array [[Float32 1, Float32 2], [Float32 3, Float32 4]])
       [''WIDTH'' \<mapsto> ''2'', ''FILE_LENGTH'' \<mapsto> ''2'', ''PROCESSOR'' \<mapsto> ''pysar'',
        ''FILE_TYPE'' \<mapsto> ''velocity'', ''UNIT'' \<mapsto> ''m/yr''])"
proof
  show "read example_lib example_fs ''v.h5'' (Some (0, 0, 2, 2)) [] =
     read example_lib example_fs ''v.h5'' None []"
  proof (rule read_full_window_round_trip [OF example_velocity_attributes])
    show "file_ext ''v.h5'' \<notin> {''.jpeg'', ''.jpg'', ''.png'', ''.ras'', ''.bmp''}"
      by (simp add: file_ext_examples)
    show "float_attr example_lib
       [''WIDTH'' \<mapsto> ''2'', ''FILE_LENGTH'' \<mapsto> ''2'', ''PROCESSOR'' \<mapsto> ''pysar'',
        ''FILE_TYPE'' \<mapsto> ''velocity'', ''UNIT'' \<mapsto> ''m/yr''] ''WIDTH'' = Inr (of_int 2)"
      by (simp add: example_velocity_float_attr)
    show "float_attr example_lib
       [''WIDTH'' \<mapsto> ''2'', ''FILE_LENGTH'' \<mapsto> ''2'', ''PROCESSOR'' \<mapsto> ''pysar'',
        ''FILE_TYPE'' \<mapsto> ''velocity'', ''UNIT'' \<mapsto> ''m/yr''] ''FILE_LENGTH'' = Inr (of_int 2)"
      by (simp add: example_velocity_float_attr)
    show "(0::int) \<le> 2" and "(0::int) \<le> 2" and "(2::int) * 2 < 2 ^ 53" by simp_all
    show "length d \<le> nat 2 \<and> (\<forall>row \<in> set d. length row \<le> nat 2)"
      if "read example_lib example_fs ''v.h5'' None [] = Inr (One_Plane (Array d) a)" for d a
      using that by (auto simp: example_read_velocity)
  qed
  show "read example_lib example_fs ''v.h5'' None [] =
     Inr (One_Plane (Array [[Float32 1, Float32 2], [Float32 3, Float32 4]])
       [''WIDTH'' \<mapsto> ''2'', ''FILE_LENGTH'' \<mapsto> ''2'', ''PROCESSOR'' \<mapsto> ''pysar'',
        ''FILE_TYPE'' \<mapsto> ''velocity'', ''UNIT'' \<mapsto> ''m/yr''])"
    by (rule example_read_velocity)
qed

lemma example_extensions: "file_ext ''m.h5'' = ''.h5''" "file_ext ''w.h5'' = ''.h5''"
  by (simp_all add: path_defs)

lemma example_mask_attributes:
  "read_attributes example_fs ''m.h5'' =
     Inr [''WIDTH'' \<mapsto> ''1'', ''FILE_LENGTH'' \<mapsto> ''1'', ''PROCESSOR'' \<mapsto> ''pysar'',
          ''FILE_TYPE'' \<mapsto> ''mask'', ''UNIT'' \<mapsto> ''1'']"
  by (simp add: read_attributes_def tagged_attributes_def example_fs_def path_defs
      h5_attributes_def first_key_def h5_attrs_of_def ref_date_default_def
      example_mask_def members_getitem_def h5_resolve_def h5_components_def
      set_unit_def getitem_def)

lemma example_mask_dataset:
  "hdf5_dataset example_fs ''m.h5''
     [''WIDTH'' \<mapsto> ''1'', ''FILE_LENGTH'' \<mapsto> ''1'', ''PROCESSOR'' \<mapsto> ''pysar'',
      ''FILE_TYPE'' \<mapsto> ''mask'', ''UNIT'' \<mapsto> ''1''] [] =
   Inr (Some (H5Dataset Map.empty [[Float32 1, Float32 2], [Float32 3, Float32 4]]))"
proof -
  have "h5 example_fs ''m.h5'' = Inr example_mask"
    by (simp add: example_fs_def)
  then show ?thesis
    by (simp add: hdf5_dataset_def getitem_def example_mask_def members_getitem_def
        h5_resolve_def h5_components_def)
qed

lemma example_wide_attributes:
  "read_attributes example_fs ''w.h5'' =
     Inr [''WIDTH'' \<mapsto> ''100000001'', ''FILE_LENGTH'' \<mapsto> ''100000003'',
          ''PROCESSOR'' \<mapsto> ''pysar'', ''FILE_TYPE'' \<mapsto> ''rmse'', ''UNIT'' \<mapsto> ''1'']"
  by (simp add: read_attributes_def tagged_attributes_def example_fs_def path_defs
      h5_attributes_def first_key_def h5_attrs_of_def ref_date_default_def
      example_wide_def members_getitem_def h5_resolve_def h5_components_def
      set_unit_def getitem_def)

lemma example_wide_dataset:
  "hdf5_dataset example_fs ''w.h5''
     [''WIDTH'' \<mapsto> ''100000001'', ''FILE_LENGTH'' \<mapsto> ''100000003'',
      ''PROCESSOR'' \<mapsto> ''pysar'', ''FILE_TYPE'' \<mapsto> ''rmse'', ''UNIT'' \<mapsto> ''1''] [] =
   Inr (Some (H5Dataset Map.empty [[Float32 7]]))"
proof -
  have "h5 example_fs ''w.h5'' = Inr example_wide"
    by (simp add: example_fs_def)
  then show ?thesis
    by (simp add: hdf5_dataset_def getitem_def example_wide_def members_getitem_def
        h5_resolve_def h5_components_def)
qed

lemma example_wide_float_attr:
  "float_attr example_lib
     [''WIDTH'' \<mapsto> ''100000001'', ''FILE_LENGTH'' \<mapsto> ''100000003'',
      ''PROCESSOR'' \<mapsto> ''pysar'', ''FILE_TYPE'' \<mapsto> ''rmse'', ''UNIT'' \<mapsto> ''1''] ''WIDTH''
     = Inr 100000001"
  "float_attr example_lib
     [''WIDTH'' \<mapsto> ''100000001'', ''FILE_LENGTH'' \<mapsto> ''100000003'',
      ''PROCESSOR'' \<mapsto> ''pysar'', ''FILE_TYPE'' \<mapsto> ''rmse'', ''UNIT'' \<mapsto> ''1''] ''FILE_LENGTH''
     = Inr 100000003"
  by (simp_all add: float_attr_def getitem_def example_lib_def float_of_decimal_def digit_def)

text \<open>
  The claim as stated fails on two readable containers. The first declares the extent
  1 by 1 over a dataset of two rows of two samples: with no window \<^verbatim>\<open>read\<close>
  returns the whole dataset, with the window \<open>(0, 0, 1, 1)\<close> its first sample. The
  second declares the width 100000001 and the length 100000003 over a dataset of one
  sample: the area of the window of the full extent is smaller than the product of
  the two floats, which is rounded up, so \<^verbatim>\<open>read\<close> goes to recompute the
  attributes and raises NameError, where the call with no window returns the dataset.
\<close>

theorem read_full_window_differs:
  "dict_get (read_attributes example_fs ''m.h5'') ''WIDTH'' = Inr (Some ''1'') \<and>
   dict_get (read_attributes example_fs ''m.h5'') ''FILE_LENGTH'' = Inr (Some ''1'') \<and>
   read example_lib example_fs ''m.h5'' None [] =
     Inr (One_Plane (Array [[Float32 1, Float32 2], [Float32 3, Float32 4]])
       [''WIDTH'' \<mapsto> ''1'', ''FILE_LENGTH'' \<mapsto> ''1'', ''PROCESSOR'' \<mapsto> ''pysar'',
        ''FILE_TYPE'' \<mapsto> ''mask'', ''UNIT'' \<mapsto> ''1'']) \<and>
   read example_lib example_fs ''m.h5'' (Some (0, 0, 1, 1)) [] =
     Inr (One_Plane (Array [[Float32 1]])
       [''WIDTH'' \<mapsto> ''1'', ''FILE_LENGTH'' \<mapsto> ''1'', ''PROCESSOR'' \<mapsto> ''pysar'',
        ''FILE_TYPE'' \<mapsto> ''mask'', ''UNIT'' \<mapsto> ''1'']) \<and>
   dict_get (read_attributes example_fs ''w.h5'') ''WIDTH'' = Inr (Some ''100000001'') \<and>
   dict_get (read_attributes example_fs ''w.h5'') ''FILE_LENGTH'' = Inr (Some ''100000003'') \<and>
   read example_lib example_fs ''w.h5'' None [] =
     Inr (One_Plane (Array [[Float32 7]])
       [''WIDTH'' \<mapsto> ''100000001'', ''FILE_LENGTH'' \<mapsto> ''100000003'',
        ''PROCESSOR'' \<mapsto> ''pysar'', ''FILE_TYPE'' \<mapsto> ''rmse'', ''UNIT'' \<mapsto> ''1'']) \<and>
   read example_lib example_fs ''w.h5'' (Some (0, 0, 100000001, 100000003)) [] =
     Inl NameError"
proof -
  have m_float: "float_attr example_lib
     [''WIDTH'' \<mapsto> ''1'', ''FILE_LENGTH'' \<mapsto> ''1'', ''PROCESSOR'' \<mapsto> ''pysar'',
      ''FILE_TYPE'' \<mapsto> ''mask'', ''UNIT'' \<mapsto> ''1''] ''WIDTH'' = Inr 1"
    "float_attr example_lib
     [''WIDTH'' \<mapsto> ''1'', ''FILE_LENGTH'' \<mapsto> ''1'', ''PROCESSOR'' \<mapsto> ''pysar'',
      ''FILE_TYPE'' \<mapsto> ''mask'', ''UNIT'' \<mapsto> ''1''] ''FILE_LENGTH'' = Inr 1"
    by (simp_all add: float_attr_def getitem_def example_lib_def float_of_decimal_examples)
  have m_none: "read example_lib example_fs ''m.h5'' None [] =
     Inr (One_Plane (Array [[Float32 1, Float32 2], [Float32 3, Float32 4]])
       [''WIDTH'' \<mapsto> ''1'', ''FILE_LENGTH'' \<mapsto> ''1'', ''PROCESSOR'' \<mapsto> ''pysar'',
        ''FILE_TYPE'' \<mapsto> ''mask'', ''UNIT'' \<mapsto> ''1''])"
    by (simp add: read_def example_extensions example_mask_attributes getitem_def
        update_attributes_def read_hdf5_def example_mask_dataset dataset_crop_def)
  have m_full: "read example_lib example_fs ''m.h5'' (Some (0, 0, 1, 1)) [] =
     Inr (One_Plane (Array [[Float32 1]])
       [''WIDTH'' \<mapsto> ''1'', ''FILE_LENGTH'' \<mapsto> ''1'', ''PROCESSOR'' \<mapsto> ''pysar'',
        ''FILE_TYPE'' \<mapsto> ''mask'', ''UNIT'' \<mapsto> ''1''])"
    by (simp add: read_def example_extensions example_mask_attributes getitem_def
        update_attributes_def m_float float_mul_examples read_hdf5_def example_mask_dataset
        dataset_crop_def crop_def slice2_def py_slice_def slice_index_def)
  have w_none: "read example_lib example_fs ''w.h5'' None [] =
     Inr (One_Plane (Array [[Float32 7]])
       [''WIDTH'' \<mapsto> ''100000001'', ''FILE_LENGTH'' \<mapsto> ''100000003'',
        ''PROCESSOR'' \<mapsto> ''pysar'', ''FILE_TYPE'' \<mapsto> ''rmse'', ''UNIT'' \<mapsto> ''1''])"
    by (simp add: read_def example_extensions example_wide_attributes getitem_def
        update_attributes_def read_hdf5_def example_wide_dataset dataset_crop_def)
  have w_full: "read example_lib example_fs ''w.h5'' (Some (0, 0, 100000001, 100000003)) [] =
     Inl NameError"
    by (simp add: read_def example_extensions example_wide_attributes getitem_def
        update_attributes_def example_wide_float_attr float_mul_rounds_up)
  show ?thesis
    by (simp add: example_mask_attributes example_wide_attributes dict_get_def
        m_none m_full w_none w_full)
qed


end
